theory Spec2Isabelle
  imports Complex_Main "HOL-Library.Word"
begin

section \<open>Go runtime conventions\<close>

text \<open>
  A Go function either returns or stops with a runtime panic. A panic is the left
  summand of the result; the constructors name the panics the modelled code can raise.
  A slice is modelled by the list of its elements, with capacity equal to length.
\<close>

datatype panic =
    IndexOutOfRange
  | SliceBoundsOutOfRange
  | MakeSliceLenOutOfRange
  | IntegerDivideByZero
  | CannotEncodeSymbol
  | NilPointerDereference

type_synonym 'a go = "panic + 'a"

text \<open>Sequencing of computations that may panic.\<close>

definition andThen :: "'a go \<Rightarrow> ('a \<Rightarrow> 'b go) \<Rightarrow> 'b go" where
  "andThen m f = (case m of Inl p \<Rightarrow> Inl p | Inr a \<Rightarrow> f a)"

text \<open>The read \<open>xs[i]\<close> and the assignment \<open>xs[i] = v\<close>: both panic out of range.\<close>

definition getIdx :: "'a list \<Rightarrow> nat \<Rightarrow> 'a go" where
  "getIdx xs i = (if i < length xs then Inr (xs ! i) else Inl IndexOutOfRange)"

definition setIdx :: "'a list \<Rightarrow> nat \<Rightarrow> 'a \<Rightarrow> 'a list go" where
  "setIdx xs i v = (if i < length xs then Inr (xs[i := v]) else Inl IndexOutOfRange)"

text \<open>
  The loop \<open>for i := a; i < b; i++ { body }\<close> whose body changes neither \<open>i\<close> nor the
  bound: the body runs on \<open>a, a+1, ..\<close> in order and the first panic ends the loop.
\<close>

primrec forEach :: "nat list \<Rightarrow> (nat \<Rightarrow> 's \<Rightarrow> 's go) \<Rightarrow> 's \<Rightarrow> 's go" where
  "forEach [] body s = Inr s"
| "forEach (i # is) body s = andThen (body i s) (forEach is body)"

section \<open>The constraint system and the proving key, as far as the prover reads them\<close>

text \<open>
  A gate names three wires; \<open>L_WireID\<close> is \<open>Constraints[i].L.WireID()\<close>, an index
  into the solution vector, and likewise for R and O.
\<close>

record SparseR1C =
  L_WireID :: nat
  R_WireID :: nat
  O_WireID :: nat

record SparseR1CS =
  Public :: "string list"
  Secret :: "string list"
  Constraints :: "SparseR1C list"

text \<open>\<open>fft.Domain\<close>: the cardinality is a \<open>uint64\<close>.\<close>

record 'f FFTDomain =
  Cardinality :: "64 word"
  CardinalityInv :: 'f
  FrMultiplicativeGen :: 'f

record ('f, 'g) VerifyingKey =
  Generator :: 'f
  CosetShift :: 'f
  VkS :: "'g list"
  VkFixed :: "'g list"

record ('f, 'g) ProvingKey =
  Vk :: "('f, 'g) VerifyingKey"
  Ql :: "'f list"
  Qr :: "'f list"
  Qm :: "'f list"
  Qo :: "'f list"
  CQk :: "'f list"
  LQk :: "'f list"
  Domain_0 :: "'f FFTDomain"
  Domain_1 :: "'f FFTDomain"
  Permutation :: "int list"
  S1Canonical :: "'f list"
  S2Canonical :: "'f list"
  S3Canonical :: "'f list"

section \<open>Evaluation extraction: \<open>evaluateLROSmallDomain\<close>\<close>

text \<open>
  \<open>make([]fr.Element, s)\<close> with \<open>s := int(pk.Domain[0].Cardinality)\<close>: the conversion
  of the \<open>uint64\<close> to \<open>int\<close> reads the same 64 bits as a signed number, and \<open>make\<close>
  panics on a negative length. A new slice holds the zero element.
\<close>

definition makeSlice :: "int \<Rightarrow> 'f \<Rightarrow> 'f list go" where
  "makeSlice s z = (if s < 0 then Inl MakeSliceLenOutOfRange else Inr (replicate (nat s) z))"

text \<open>The first loop: placeholder rows for the public inputs.\<close>

definition placeholderRow :: "'f list \<Rightarrow> 'f \<Rightarrow> nat \<Rightarrow>
    'f list \<times> 'f list \<times> 'f list \<Rightarrow> ('f list \<times> 'f list \<times> 'f list) go" where
  "placeholderRow solution s0 i lro = (case lro of (xl, xr, xo) \<Rightarrow>
     andThen (getIdx solution i) (\<lambda>v.
     andThen (setIdx xl i v) (\<lambda>xl'.
     andThen (setIdx xr i s0) (\<lambda>xr'.
     andThen (setIdx xo i s0) (\<lambda>xo'. Inr (xl', xr', xo'))))))"

text \<open>The second loop: one row per gate, at \<open>offset + i\<close>.\<close>

definition constraintRow :: "SparseR1C list \<Rightarrow> 'f list \<Rightarrow> nat \<Rightarrow> nat \<Rightarrow>
    'f list \<times> 'f list \<times> 'f list \<Rightarrow> ('f list \<times> 'f list \<times> 'f list) go" where
  "constraintRow cs solution offset i lro = (case lro of (xl, xr, xo) \<Rightarrow>
     andThen (getIdx cs i) (\<lambda>c.
     andThen (getIdx solution (L_WireID c)) (\<lambda>vl.
     andThen (setIdx xl (offset + i) vl) (\<lambda>xl'.
     andThen (getIdx solution (R_WireID c)) (\<lambda>vr.
     andThen (setIdx xr (offset + i) vr) (\<lambda>xr'.
     andThen (getIdx solution (O_WireID c)) (\<lambda>vo.
     andThen (setIdx xo (offset + i) vo) (\<lambda>xo'. Inr (xl', xr', xo')))))))))"

text \<open>The third loop: padding rows.\<close>

definition paddingRow :: "'f \<Rightarrow> nat \<Rightarrow> nat \<Rightarrow>
    'f list \<times> 'f list \<times> 'f list \<Rightarrow> ('f list \<times> 'f list \<times> 'f list) go" where
  "paddingRow s0 offset i lro = (case lro of (xl, xr, xo) \<Rightarrow>
     andThen (setIdx xl (offset + i) s0) (\<lambda>xl'.
     andThen (setIdx xr (offset + i) s0) (\<lambda>xr'.
     andThen (setIdx xo (offset + i) s0) (\<lambda>xo'. Inr (xl', xr', xo')))))"

text \<open>
  The bound of the third loop is the \<open>int\<close> difference \<open>s - offset\<close>; when it is
  negative the loop does not run.
\<close>

definition evaluateLROSmallDomain :: "SparseR1CS \<Rightarrow> ('f::zero, 'g) ProvingKey \<Rightarrow> 'f list \<Rightarrow>
    ('f list \<times> 'f list \<times> 'f list) go" where
  "evaluateLROSmallDomain spr pk solution =
     (let s = sint (Cardinality (Domain_0 pk)) in
      andThen (makeSlice s 0) (\<lambda>xl.
      andThen (makeSlice s 0) (\<lambda>xr.
      andThen (makeSlice s 0) (\<lambda>xo.
      andThen (getIdx solution 0) (\<lambda>s0.
      andThen (forEach [0 ..< length (Public spr)] (placeholderRow solution s0) (xl, xr, xo)) (\<lambda>lro1.
      let offset = length (Public spr) in
      andThen (forEach [0 ..< length (Constraints spr)]
                 (constraintRow (Constraints spr) solution offset) lro1) (\<lambda>lro2.
      let offset' = offset + length (Constraints spr) in
      forEach [0 ..< nat (s - int offset')] (paddingRow s0 offset') lro2)))))))"

text \<open>
  What the three loops need in order not to panic: a non-negative cardinality as \<open>int\<close>,
  a solution vector that holds the public inputs and every wire a gate names, and room for
  all rows in the domain.
\<close>

definition lroWellFormed :: "SparseR1CS \<Rightarrow> ('f, 'g) ProvingKey \<Rightarrow> 'f list \<Rightarrow> bool" where
  "lroWellFormed spr pk solution \<longleftrightarrow>
     0 \<le> sint (Cardinality (Domain_0 pk)) \<and>
     solution \<noteq> [] \<and>
     length (Public spr) \<le> length solution \<and>
     length (Public spr) + length (Constraints spr) \<le> unat (Cardinality (Domain_0 pk)) \<and>
     list_all (\<lambda>c. L_WireID c < length solution \<and> R_WireID c < length solution \<and>
                    O_WireID c < length solution) (Constraints spr)"

text \<open>
  \<open>fill offset n f xs\<close> is \<open>xs\<close> with the \<open>n\<close> rows from \<open>offset\<close> on replaced by
  \<open>f 0, f 1, ..\<close>: the closed form of one row-filling loop.
\<close>

definition fill :: "nat \<Rightarrow> nat \<Rightarrow> (nat \<Rightarrow> 'f) \<Rightarrow> 'f list \<Rightarrow> 'f list" where
  "fill offset n f xs =
     map (\<lambda>k. if offset \<le> k \<and> k < offset + n then f (k - offset) else xs ! k) [0 ..< length xs]"

section \<open>The LZSS compressor: \<open>Compress\<close>\<close>

text \<open>
  Errors returned by the compressor. An error raised inside the bit writer is a value of
  that package; it is carried as an opaque code.
\<close>

datatype lzssError =
    InputSizeError
  | BackrefNotFound int
  | WriterError nat

type_synonym byte = "8 word"

text \<open>
  \<open>backrefType\<close> and \<open>backref\<close>, with the fields \<open>Compress\<close> and \<open>findBackRef\<close> read.
\<close>

record backrefType =
  delimiter :: byte
  nbBitsAddress :: byte
  nbBitsLength :: byte
  nbBytesBackRef :: int
  maxAddress :: int
  maxLength :: int
  dictOnly :: bool

record backref =
  bType :: backrefType
  address_br :: int
  length_br :: int

text \<open>
  What \<open>Compress\<close> uses and this file does not define: the size limit and the three
  reserved symbols (constants of the package), the constructor of a back-reference type,
  the savings and the encoder of a back-reference, the longest-match search of the suffix
  array (given the indexed data, the pattern, the length bounds and the address range), and
  the bit writer with its sticky error.
\<close>

record 'w lzssEnv =
  maxInputSize :: nat
  symbolDict :: byte
  symbolShort :: byte
  symbolLong :: byte
  newBackRefType :: "byte \<Rightarrow> byte \<Rightarrow> byte \<Rightarrow> bool \<Rightarrow> backrefType"
  savings :: "backref \<Rightarrow> int"
  writeTo :: "backref \<Rightarrow> 'w \<Rightarrow> int \<Rightarrow> 'w"
  LookupLongest :: "byte list \<Rightarrow> byte list \<Rightarrow> int \<Rightarrow> int \<Rightarrow> int \<Rightarrow> int \<Rightarrow> int \<times> int"
  NewWriter :: 'w
  TryWriteByte :: "'w \<Rightarrow> byte \<Rightarrow> 'w"
  TryError :: "'w \<Rightarrow> nat option"
  Close :: "'w \<Rightarrow> nat option"
  Bytes :: "'w \<Rightarrow> byte list"

text \<open>
  The compressor. \<open>bw_c\<close> is the field \<open>bw\<close>: the bit writer together with the buffer
  \<open>buf\<close> it writes to, nil (\<open>None\<close>) until \<open>Compress\<close> creates one. \<open>inputIndex\<close> is nil
  until \<open>Compress\<close> builds it; an index is identified with the data it indexes, and its
  storage \<open>inputSa\<close> with it. \<open>dictIndex\<close> is the index of \<open>dictData\<close>, built by
  \<open>NewCompressor\<close>.
\<close>

record 'w Compressor =
  bw_c :: "'w option"
  inputIndex :: "byte list option"
  dictData :: "byte list"
  compressionMode :: byte

text \<open>Reads and slices at an \<open>int\<close> position: Go panics outside the bounds.\<close>

definition getAt :: "'a list \<Rightarrow> int \<Rightarrow> 'a go" where
  "getAt xs i = (if 0 \<le> i \<and> i < int (length xs) then Inr (xs ! nat i) else Inl IndexOutOfRange)"

definition sliceInt :: "'a list \<Rightarrow> int \<Rightarrow> int \<Rightarrow> 'a list go" where
  "sliceInt xs lo hi =
     (if 0 \<le> lo \<and> lo \<le> hi \<and> hi \<le> int (length xs)
      then Inr (take (nat hi - nat lo) (drop (nat lo) xs))
      else Inl SliceBoundsOutOfRange)"

text \<open>\<open>bits.Len\<close>: the number of bits of a non-negative number.\<close>

fun bitsLen :: "nat \<Rightarrow> nat" where
  "bitsLen n = (if n = 0 then 0 else Suc (bitsLen (n div 2)))"

declare bitsLen.simps [simp del]

text \<open>
  \<open>wordAlign\<close> computes in \<open>uint8\<close>; the division panics when the compression mode is 0.
\<close>

definition wordAlign :: "byte \<Rightarrow> int \<Rightarrow> byte go" where
  "wordAlign mode a =
     (if mode = 0 then Inl IntegerDivideByZero
      else Inr ((word_of_int a + mode - 1) div mode * mode))"

definition initBackRefTypes :: "'w lzssEnv \<Rightarrow> nat \<Rightarrow> byte \<Rightarrow>
    (backrefType \<times> backrefType \<times> backrefType) go" where
  "initBackRefTypes env dictLen mode =
     andThen (wordAlign mode 14) (\<lambda>a14.
     andThen (wordAlign mode 19) (\<lambda>a19.
     andThen (wordAlign mode (int (bitsLen dictLen))) (\<lambda>aDict.
     Inr (newBackRefType env (symbolShort env) a14 8 False,
          newBackRefType env (symbolLong env) a19 8 False,
          newBackRefType env (symbolDict env) aDict 8 True))))"

definition canEncodeSymbol :: "'w lzssEnv \<Rightarrow> byte \<Rightarrow> bool" where
  "canEncodeSymbol env b \<longleftrightarrow> b \<noteq> symbolDict env \<and> b \<noteq> symbolShort env \<and> b \<noteq> symbolLong env"

definition writeByte :: "'w lzssEnv \<Rightarrow> 'w \<Rightarrow> byte \<Rightarrow> 'w go" where
  "writeByte env w b =
     (if \<not> canEncodeSymbol env b then Inl CannotEncodeSymbol else Inr (TryWriteByte env w b))"

definition findBackRef :: "'w lzssEnv \<Rightarrow> 'w Compressor \<Rightarrow> byte list \<Rightarrow> int \<Rightarrow> backrefType \<Rightarrow> int \<Rightarrow>
    (int \<times> int) go" where
  "findBackRef env c data i bt minLength0 =
     (let minLength = (if minLength0 = - 1 then nbBytesBackRef bt else minLength0) in
      if i + minLength > int (length data) then Inr (- 1, - 1)
      else
        let windowStart = max 0 (i - maxAddress bt);
            maxRefLen = (if i + maxLength bt > int (length data) then int (length data) - i
                         else maxLength bt)
        in if minLength > maxRefLen then Inr (- 1, - 1)
           else andThen (sliceInt data i (i + maxRefLen)) (\<lambda>t.
                  if dictOnly bt
                  then Inr (LookupLongest env (dictData c) t minLength maxRefLen 0
                              (int (length (dictData c))))
                  else (case inputIndex c of
                          None \<Rightarrow> Inl NilPointerDereference
                        | Some ix \<Rightarrow>
                            Inr (LookupLongest env ix t minLength maxRefLen windowStart i))))"

text \<open>
  The state of the main loop: the position, the writer and the three candidate
  back-references that the closures \<open>fillBackrefs\<close> and \<open>bestBackref\<close> share.
\<close>

record 'w loopState =
  pos :: int
  bw :: 'w
  bDict :: backref
  bShort :: backref
  bLong :: backref

definition fillBackrefs :: "'w lzssEnv \<Rightarrow> 'w Compressor \<Rightarrow> byte list \<Rightarrow> int \<Rightarrow> int \<Rightarrow>
    'w loopState \<Rightarrow> (bool \<times> 'w loopState) go" where
  "fillBackrefs env c d i minLen st =
     andThen (findBackRef env c d i (bType (bDict st)) minLen) (\<lambda>(ad, ld).
     andThen (findBackRef env c d i (bType (bShort st)) minLen) (\<lambda>(as, ls).
     andThen (findBackRef env c d i (bType (bLong st)) minLen) (\<lambda>(al, ll).
     Inr (\<not> (ld = - 1 \<and> ls = - 1 \<and> ll = - 1),
          st\<lparr>bDict := (bDict st)\<lparr>address_br := ad, length_br := ld\<rparr>,
             bShort := (bShort st)\<lparr>address_br := as, length_br := ls\<rparr>,
             bLong := (bLong st)\<lparr>address_br := al, length_br := ll\<rparr>\<rparr>))))"

definition bestBackref :: "'w lzssEnv \<Rightarrow> 'w loopState \<Rightarrow> backref \<times> int" where
  "bestBackref env st =
     (if length_br (bDict st) \<noteq> - 1 \<and> savings env (bDict st) > savings env (bShort st)
         \<and> savings env (bDict st) > savings env (bLong st)
      then (bDict st, savings env (bDict st))
      else if length_br (bShort st) \<noteq> - 1 \<and> savings env (bShort st) > savings env (bLong st)
      then (bShort st, savings env (bShort st))
      else (bLong st, savings env (bLong st)))"

text \<open>
  The look-ahead of one iteration, entered with a back-reference \<open>bestAtI\<close> found at \<open>i\<close>:
  it may emit one or two literal bytes and move to a better back-reference one or two
  positions further. It yields the back-reference to emit and the state to emit it in.
\<close>

definition lookAheadSecond :: "'w lzssEnv \<Rightarrow> 'w Compressor \<Rightarrow> byte list \<Rightarrow>
    backref \<Rightarrow> int \<Rightarrow> 'w loopState \<Rightarrow> (backref \<times> 'w loopState) go" where
  "lookAheadSecond env c d bestAtI bestSavings st =
     (let i = pos st in
      andThen (getAt d i) (\<lambda>di.
      if canEncodeSymbol env di \<and> i + 1 < int (length d) then
        andThen (fillBackrefs env c d (i + 1) (length_br bestAtI + 1) st) (\<lambda>(found, st1).
        if found then
          (case bestBackref env st1 of (newBest, newSavings) \<Rightarrow>
            if newSavings > bestSavings then
              andThen (writeByte env (bw st1) di) (\<lambda>w.
              Inr (newBest, st1\<lparr>pos := i + 1, bw := w\<rparr>))
            else Inr (bestAtI, st1))
        else Inr (bestAtI, st1))
      else Inr (bestAtI, st)))"

definition lookAhead :: "'w lzssEnv \<Rightarrow> 'w Compressor \<Rightarrow> byte list \<Rightarrow>
    backref \<Rightarrow> int \<Rightarrow> 'w loopState \<Rightarrow> (backref \<times> 'w loopState) go" where
  "lookAhead env c d bestAtI bestSavings st =
     (let i = pos st in
      if i + 1 < int (length d) then
        andThen (fillBackrefs env c d (i + 1) (length_br bestAtI + 1) st) (\<lambda>(found, st1).
        if found then
          (case bestBackref env st1 of (newBest, newSavings) \<Rightarrow>
            if newSavings > bestSavings then
              andThen (getAt d i) (\<lambda>di.
              andThen (writeByte env (bw st1) di) (\<lambda>w.
              lookAheadSecond env c d newBest newSavings (st1\<lparr>pos := i + 1, bw := w\<rparr>)))
            else Inr (bestAtI, st1))
        else if i + 2 < int (length d) then
          andThen (getAt d (i + 1)) (\<lambda>di1.
          if canEncodeSymbol env di1 then
            andThen (fillBackrefs env c d (i + 2) (length_br bestAtI + 2) st1) (\<lambda>(found2, st2).
            if found2 then
              (case bestBackref env st2 of (newBest, newSavings) \<Rightarrow>
                if newSavings > bestSavings then
                  andThen (getAt d i) (\<lambda>di.
                  andThen (writeByte env (bw st2) di) (\<lambda>w.
                  andThen (getAt d (i + 1)) (\<lambda>di1'.
                  andThen (writeByte env w di1') (\<lambda>w'.
                  Inr (newBest, st2\<lparr>pos := i + 2, bw := w'\<rparr>)))))
                else Inr (bestAtI, st2))
            else Inr (bestAtI, st2))
          else Inr (bestAtI, st1))
        else Inr (bestAtI, st1))
      else Inr (bestAtI, st))"

text \<open>
  One iteration of \<open>for i := 0; i < len(d); { .. }\<close>, entered with \<open>i < len(d)\<close>: it either
  returns from \<open>Compress\<close> with an error or goes on with a new state.
\<close>

datatype 'w iteration =
    Returns "byte list option" "lzssError option" "'w loopState"
  | GoesOn "'w loopState"

definition compressIteration :: "'w lzssEnv \<Rightarrow> 'w Compressor \<Rightarrow> byte list \<Rightarrow> 'w loopState \<Rightarrow>
    'w iteration go" where
  "compressIteration env c d st =
     (let i = pos st in
      andThen (getAt d i) (\<lambda>di.
      if \<not> canEncodeSymbol env di then
        andThen (fillBackrefs env c d i 1 st) (\<lambda>(found, st1).
        if \<not> found then Inr (Returns None (Some (BackrefNotFound i)) st1)
        else
          (case bestBackref env st1 of (best, _) \<Rightarrow>
            Inr (GoesOn (st1\<lparr>bw := writeTo env best (bw st1) i, pos := i + length_br best\<rparr>))))
      else
        andThen (fillBackrefs env c d i (- 1) st) (\<lambda>(found, st1).
        if \<not> found then
          andThen (writeByte env (bw st1) di) (\<lambda>w.
          Inr (GoesOn (st1\<lparr>bw := w, pos := i + 1\<rparr>)))
        else
          (case bestBackref env st1 of (bestAtI, bestSavings) \<Rightarrow>
            andThen (lookAhead env c d bestAtI bestSavings st1) (\<lambda>(bestAtI', st2).
            Inr (GoesOn (st2\<lparr>bw := writeTo env bestAtI' (bw st2) (pos st2),
                             pos := pos st2 + length_br bestAtI'\<rparr>)))))))"

text \<open>What follows the loop: the writer's sticky error, then \<open>Close\<close>, then the bytes.\<close>

definition finish :: "'w lzssEnv \<Rightarrow> 'w \<Rightarrow> byte list option \<times> lzssError option" where
  "finish env w =
     (case TryError env w of
        Some e \<Rightarrow> (None, Some (WriterError e))
      | None \<Rightarrow>
          (case Close env w of
             Some e \<Rightarrow> (None, Some (WriterError e))
           | None \<Rightarrow> (Some (Bytes env w), None)))"

text \<open>
  The loop. Nothing in this file bounds the length a back-reference search reports, so the
  loop carries fuel: \<open>None\<close> is a run that has not returned within \<open>fuel\<close> iterations.
  A run that returns gives the two results of \<open>Compress\<close> and the loop state it ended in.
\<close>

fun compressLoop :: "nat \<Rightarrow> 'w lzssEnv \<Rightarrow> 'w Compressor \<Rightarrow> byte list \<Rightarrow> 'w loopState \<Rightarrow>
    ((byte list option \<times> lzssError option) \<times> 'w loopState) go option" where
  "compressLoop fuel env c d st =
     (if \<not> pos st < int (length d) then Some (Inr (finish env (bw st), st))
      else case fuel of
        0 \<Rightarrow> None
      | Suc fuel' \<Rightarrow>
          (case compressIteration env c d st of
             Inl p \<Rightarrow> Some (Inl p)
           | Inr (Returns out err st') \<Rightarrow> Some (Inr ((out, err), st'))
           | Inr (GoesOn st') \<Rightarrow> compressLoop fuel' env c d st'))"

declare compressLoop.simps [simp del]

text \<open>
  \<open>Compress\<close> returns its two results and leaves the compressor changed. After the size
  check it empties the buffer and creates the writer over it, then builds the index of the
  input; the loop writes through that writer, and the compressor keeps the writer as the
  loop left it.
\<close>

definition Compress :: "nat \<Rightarrow> 'w lzssEnv \<Rightarrow> 'w Compressor \<Rightarrow> byte list \<Rightarrow>
    ((byte list option \<times> lzssError option) \<times> 'w Compressor) go option" where
  "Compress fuel env c d =
     (if length d > maxInputSize env then Some (Inr ((None, Some InputSizeError), c))
      else
        let c1 = c\<lparr>bw_c := Some (NewWriter env)\<rparr>;
            c2 = c1\<lparr>inputIndex := Some d\<rparr>
        in
        case initBackRefTypes env (length (dictData c2)) (compressionMode c2) of
          Inl p \<Rightarrow> Some (Inl p)
        | Inr (shortBackRefType, longBackRefType, dictBackRefType) \<Rightarrow>
            (case compressLoop fuel env c2 d
                \<lparr>pos = 0, bw = NewWriter env,
                 bDict = \<lparr>bType = dictBackRefType, address_br = - 1, length_br = - 1\<rparr>,
                 bShort = \<lparr>bType = shortBackRefType, address_br = - 1, length_br = - 1\<rparr>,
                 bLong = \<lparr>bType = longBackRefType, address_br = - 1, length_br = - 1\<rparr>\<rparr> of
               None \<Rightarrow> None
             | Some (Inl p) \<Rightarrow> Some (Inl p)
             | Some (Inr (res, st)) \<Rightarrow> Some (Inr (res, c2\<lparr>bw_c := Some (bw st)\<rparr>))))"

section \<open>The PLONK prover: collaborators\<close>

text \<open>
  Field elements are values of a field \<open>'f\<close> and commitments are values of an additive
  group \<open>'g\<close>. An error of a collaborating package is an opaque value that \<open>Prove\<close> only
  passes on.
\<close>

datatype error = Failure string

record ProverConfig =
  Force :: bool

text \<open>\<open>iop.Form\<close>, \<open>iop.Polynomial\<close>, \<open>iop.WrappedPolynomial\<close> and a multivariate polynomial
  as the list of its monomials (coefficient and exponents) with the constant \<open>C\<close>.\<close>

datatype Basis = Canonical | Lagrange | LagrangeCoset

datatype Layout = Regular | BitReverse

record Form =
  Basis_of :: Basis
  Layout_of :: Layout

record 'f Polynomial =
  Coefficients :: "'f list"
  Form_of :: Form

record 'f WrappedPolynomial =
  P :: "'f Polynomial"
  Shift :: int
  Size :: nat

record 'f MultivariatePolynomial =
  M :: "('f \<times> int list) list"
  C :: 'f

definition AddMonomial :: "'f MultivariatePolynomial \<Rightarrow> 'f \<Rightarrow> int list \<Rightarrow> 'f MultivariatePolynomial" where
  "AddMonomial mp c e = mp\<lparr>M := M mp @ [(c, e)]\<rparr>"

text \<open>\<open>kzg.OpeningProof\<close>, \<open>kzg.BatchOpeningProof\<close> and the \<open>Proof\<close> of the source file.\<close>

record ('f, 'g) OpeningProof =
  OpeningH :: 'g
  ClaimedValue :: 'f

record ('f, 'g) BatchOpeningProof =
  BatchH :: 'g
  ClaimedValues :: "'f list"

text \<open>The arrays \<open>LRO\<close> and \<open>H\<close> of three digests are lists of length three.\<close>

record ('f, 'g) Proof =
  LRO :: "'g list"
  Z :: 'g
  H :: "'g list"
  BatchedProof :: "('f, 'g) BatchOpeningProof"
  ZShiftedOpening :: "('f, 'g) OpeningProof"

definition emptyProof :: "('f::zero, 'g::zero) Proof" where
  "emptyProof = \<lparr>LRO = [0, 0, 0], Z = 0, H = [0, 0, 0],
     BatchedProof = \<lparr>BatchH = 0, ClaimedValues = []\<rparr>,
     ZShiftedOpening = \<lparr>OpeningH = 0, ClaimedValue = 0\<rparr>\<rparr>"

text \<open>
  The Fiat-Shamir transcript is ordered and append-only: its state is the list of the
  challenge names it was created with and the log of what was absorbed for which challenge
  and which challenge was computed, in order.
\<close>

datatype ('f, 'g) absorbed =
    VkFixedData "('f, 'g) VerifyingKey"
  | PublicInputs "'f list"
  | Point 'g

datatype ('f, 'g) fsEvent =
    Bound string "('f, 'g) absorbed"
  | Computed string

record ('f, 'g) Transcript =
  challenges :: "string list"
  fsLog :: "('f, 'g) fsEvent list"

definition NewTranscript :: "string list \<Rightarrow> ('f, 'g) Transcript" where
  "NewTranscript names = \<lparr>challenges = names, fsLog = []\<rparr>"

text \<open>
  The collaborators of \<open>Prove\<close>, none of which this file defines: the solver, the random
  source, the polynomial package \<open>iop\<close>, the FFT, the commitment scheme \<open>kzg\<close>, the curve and
  the hash behind the transcript. A function that returns a value and an error in Go
  returns the pair here. \<open>ScalarMultiplication env p s\<close> is the point \<open>p\<close> multiplied by
  the big-integer form of the field element \<open>s\<close>. \<open>BindFails\<close> and \<open>ChallengeBytes\<close> say, from
  the transcript's state, whether an absorption fails and what a challenge hashes to.
\<close>

record ('f, 'g) proverEnv =
  Solve :: "SparseR1CS \<Rightarrow> 'f list \<Rightarrow> ProverConfig \<Rightarrow> 'f list \<times> error option"
  SetRandom :: 'f
  NewPolynomial :: "'f list \<Rightarrow> Form \<Rightarrow> 'f Polynomial"
  WrapMe :: "'f Polynomial \<Rightarrow> int \<Rightarrow> 'f WrappedPolynomial"
  ToCanonical :: "'f WrappedPolynomial \<Rightarrow> 'f FFTDomain \<Rightarrow> 'f WrappedPolynomial"
  ToRegular :: "'f WrappedPolynomial \<Rightarrow> 'f WrappedPolynomial"
  ToLagrangeCoset :: "'f WrappedPolynomial \<Rightarrow> 'f FFTDomain \<Rightarrow> 'f WrappedPolynomial"
  PolyToCanonical :: "'f Polynomial \<Rightarrow> 'f FFTDomain \<Rightarrow> 'f Polynomial"
  PolyToRegular :: "'f Polynomial \<Rightarrow> 'f Polynomial"
  PolyToLagrangeCoset :: "'f Polynomial \<Rightarrow> 'f FFTDomain \<Rightarrow> 'f Polynomial"
  Copy :: "'f Polynomial \<Rightarrow> 'f Polynomial"
  Evaluate :: "'f WrappedPolynomial \<Rightarrow> 'f \<Rightarrow> 'f"
  PolyEvaluate :: "'f Polynomial \<Rightarrow> 'f \<Rightarrow> 'f"
  BuildRatioCopyConstraint :: "'f Polynomial list \<Rightarrow> int list \<Rightarrow> 'f \<Rightarrow> 'f \<Rightarrow> Form \<Rightarrow>
      'f FFTDomain \<Rightarrow> 'f Polynomial \<times> error option"
  EvaluatePolynomials :: "'f MultivariatePolynomial \<Rightarrow> 'f WrappedPolynomial list \<Rightarrow>
      'f Polynomial \<times> error option"
  ComputeQuotient :: "'f WrappedPolynomial list \<Rightarrow> 'f MultivariatePolynomial \<Rightarrow>
      'f FFTDomain \<Rightarrow> 'f FFTDomain \<Rightarrow> 'f Polynomial \<times> error option"
  FFTInverse :: "'f FFTDomain \<Rightarrow> 'f list \<Rightarrow> 'f list"
  BitReverseCoefficients :: "'f list \<Rightarrow> 'f list"
  Commit :: "'f list \<Rightarrow> 'g \<times> error option"
  Open :: "'f list \<Rightarrow> 'f \<Rightarrow> ('f, 'g) OpeningProof \<times> error option"
  BatchOpenSinglePoint :: "'f list list \<Rightarrow> 'g list \<Rightarrow> 'f \<Rightarrow>
      ('f, 'g) BatchOpeningProof \<times> error option"
  ScalarMultiplication :: "'g \<Rightarrow> 'f \<Rightarrow> 'g"
  BindFails :: "('f, 'g) Transcript \<Rightarrow> string \<Rightarrow> ('f, 'g) absorbed \<Rightarrow> error option"
  ChallengeBytes :: "('f, 'g) Transcript \<Rightarrow> string \<Rightarrow> byte list \<times> error option"
  SetBytes :: "byte list \<Rightarrow> 'f"

text \<open>
  \<open>fs.Bind\<close> and \<open>fs.ComputeChallenge\<close>: an operation that succeeds is appended to the log,
  one that fails leaves the transcript as it was.
\<close>

definition Bind :: "('f, 'g) proverEnv \<Rightarrow> ('f, 'g) Transcript \<Rightarrow> string \<Rightarrow> ('f, 'g) absorbed \<Rightarrow>
    ('f, 'g) Transcript \<times> error option" where
  "Bind env t name x =
     (case BindFails env t name x of
        Some e \<Rightarrow> (t, Some e)
      | None \<Rightarrow> (t\<lparr>fsLog := fsLog t @ [Bound name x]\<rparr>, None))"

definition ComputeChallenge :: "('f, 'g) proverEnv \<Rightarrow> ('f, 'g) Transcript \<Rightarrow> string \<Rightarrow>
    ('f, 'g) Transcript \<times> byte list \<times> error option" where
  "ComputeChallenge env t name =
     (case ChallengeBytes env t name of
        (b, Some e) \<Rightarrow> (t, b, Some e)
      | (b, None) \<Rightarrow> (t\<lparr>fsLog := fsLog t @ [Computed name]\<rparr>, b, None))"

text \<open>
  Modelled from the spec: \<open>bindPublicData\<close> is called by \<open>Prove\<close> and defined elsewhere in the
  repository. By section 4.3 it absorbs, for the named challenge, the verification key's
  fixed data and then the public-input vector; an absorption that fails ends it with the
  error.
\<close>

definition bindPublicData :: "('f, 'g) proverEnv \<Rightarrow> ('f, 'g) Transcript \<Rightarrow> string \<Rightarrow>
    ('f, 'g) VerifyingKey \<Rightarrow> 'f list \<Rightarrow> ('f, 'g) Transcript \<times> error option" where
  "bindPublicData env t name vk publicInputs =
     (case Bind env t name (VkFixedData vk) of
        (t1, Some e) \<Rightarrow> (t1, Some e)
      | (t1, None) \<Rightarrow> Bind env t1 name (PublicInputs publicInputs))"

text \<open>
  Modelled from the spec: \<open>deriveRandomness\<close> is called by \<open>Prove\<close> and defined elsewhere in
  the repository. By section 4.3 it absorbs the given commitments in order for the named
  challenge, computes the challenge and reads it as a field element; the first failure ends
  it with the error.
\<close>

fun bindPoints :: "('f, 'g) proverEnv \<Rightarrow> ('f, 'g) Transcript \<Rightarrow> string \<Rightarrow> 'g list \<Rightarrow>
    ('f, 'g) Transcript \<times> error option" where
  "bindPoints env t name [] = (t, None)"
| "bindPoints env t name (p # ps) =
     (case Bind env t name (Point p) of
        (t1, Some e) \<Rightarrow> (t1, Some e)
      | (t1, None) \<Rightarrow> bindPoints env t1 name ps)"

definition deriveRandomness :: "('f::zero, 'g) proverEnv \<Rightarrow> ('f, 'g) Transcript \<Rightarrow> string \<Rightarrow> 'g list \<Rightarrow>
    ('f, 'g) Transcript \<times> 'f \<times> error option" where
  "deriveRandomness env t name points =
     (case bindPoints env t name points of
        (t1, Some e) \<Rightarrow> (t1, 0, Some e)
      | (t1, None) \<Rightarrow>
          (case ComputeChallenge env t1 name of
             (t2, b, Some e) \<Rightarrow> (t2, 0, Some e)
           | (t2, b, None) \<Rightarrow> (t2, SetBytes env b, None)))"

section \<open>The PLONK prover: the concurrent commitments\<close>

text \<open>
  \<open>commitToLRO\<close> forks two commitments and computes the third on the calling path. The
  three are pure functions of disjoint inputs, so what they compute does not depend on the
  schedule; what the calling path does is sequential. The model returns the error, the
  proof as the calling path may read it, and the calling path's own actions in order: the
  two forks, its own commitment, and each receive from a channel that a forked commitment
  closes when it is done. When the calling path returns on its own failure it has received
  from neither channel, so it knows nothing of the forked results: the proof then carries
  only \<open>LRO[2]\<close>.
\<close>

datatype pathEvent =
    Forked nat
  | CommittedOnCallingPath
  | Received nat

definition commitToLRO :: "('f, 'g) proverEnv \<Rightarrow> 'f list \<Rightarrow> 'f list \<Rightarrow> 'f list \<Rightarrow> ('f, 'g) Proof \<Rightarrow>
    error option \<times> ('f, 'g) Proof \<times> pathEvent list" where
  "commitToLRO env bcl bcr bco prf =
     (case Commit env bco of
        (d2, Some err2) \<Rightarrow>
          (Some err2, prf\<lparr>LRO := (LRO prf)[2 := d2]\<rparr>,
           [Forked 0, Forked 1, CommittedOnCallingPath])
      | (d2, None) \<Rightarrow>
          (case (Commit env bcl, Commit env bcr) of ((d0, err0), (d1, err1)) \<Rightarrow>
            (case err0 of Some e0 \<Rightarrow> Some e0 | None \<Rightarrow> err1,
             prf\<lparr>LRO := (LRO prf)[2 := d2, 0 := d0, 1 := d1]\<rparr>,
             [Forked 0, Forked 1, CommittedOnCallingPath, Received 0, Received 1])))"

definition commitToQuotient :: "('f, 'g) proverEnv \<Rightarrow> 'f list \<Rightarrow> 'f list \<Rightarrow> 'f list \<Rightarrow> ('f, 'g) Proof \<Rightarrow>
    error option \<times> ('f, 'g) Proof \<times> pathEvent list" where
  "commitToQuotient env h1 h2 h3 prf =
     (case Commit env h3 of
        (d2, Some err2) \<Rightarrow>
          (Some err2, prf\<lparr>H := (H prf)[2 := d2]\<rparr>,
           [Forked 0, Forked 1, CommittedOnCallingPath])
      | (d2, None) \<Rightarrow>
          (case (Commit env h1, Commit env h2) of ((d0, err0), (d1, err1)) \<Rightarrow>
            (case err0 of Some e0 \<Rightarrow> Some e0 | None \<Rightarrow> err1,
             prf\<lparr>H := (H prf)[2 := d2, 0 := d0, 1 := d1]\<rparr>,
             [Forked 0, Forked 1, CommittedOnCallingPath, Received 0, Received 1])))"

text \<open>
  The property claimed of the join: the calling path has received from both channels
  when it returns.
\<close>

definition joinedBoth :: "pathEvent list \<Rightarrow> bool" where
  "joinedBoth tr \<longleftrightarrow> Received 0 \<in> set tr \<and> Received 1 \<in> set tr"

section \<open>The PLONK prover: \<open>computeLinearizedPolynomial\<close>\<close>

text \<open>\<open>fr.Element.Exp\<close> with a \<open>big.Int\<close> exponent; a negative exponent inverts the base.\<close>

definition frExp :: "'f::field \<Rightarrow> int \<Rightarrow> 'f" where
  "frExp x k = (if 0 \<le> k then x ^ nat k else inverse x ^ nat (- k))"

text \<open>
  One pass of the loop over the coefficients. The reads of \<open>pk.S3Canonical\<close> and \<open>pk.Qm\<close>
  are guarded by their lengths; those of \<open>pk.Ql\<close>, \<open>pk.Qr\<close>, \<open>pk.Qo\<close> and \<open>pk.CQk\<close> are
  guarded by the length of \<open>pk.Qm\<close> only.
\<close>

definition linPolCoefficient :: "('f::field, 'g) ProvingKey \<Rightarrow> 'f list \<Rightarrow>
    'f \<Rightarrow> 'f \<Rightarrow> 'f \<Rightarrow> 'f \<Rightarrow> 'f \<Rightarrow> 'f \<Rightarrow> 'f \<Rightarrow> 'f \<Rightarrow> 'f \<Rightarrow> nat \<Rightarrow> 'f list \<Rightarrow> 'f list go" where
  "linPolCoefficient pk blindedZCanonical lZeta rZeta oZeta alpha rl s1 s2 lagrangeZeta one i linPol =
     andThen (getIdx linPol i) (\<lambda>x0.
     let x1 = x0 * s2 in
     andThen (if i < length (S3Canonical pk) then Inr (x1 + S3Canonical pk ! i * s1) else Inr x1) (\<lambda>x2.
     let x3 = x2 * alpha in
     andThen (if i < length (Qm pk) then
                andThen (getIdx (Ql pk) i) (\<lambda>ql.
                andThen (getIdx (Qr pk) i) (\<lambda>qr.
                andThen (getIdx (Qo pk) i) (\<lambda>qo.
                andThen (getIdx (CQk pk) i) (\<lambda>qk.
                  Inr (x3 + (ql * lZeta + Qm pk ! i * rl) + qr * rZeta + (qo * oZeta + qk))))))
              else Inr x3) (\<lambda>x4.
     andThen (getIdx blindedZCanonical i) (\<lambda>z.
     setIdx linPol i (x4 + z * lagrangeZeta)))))"

definition computeLinearizedPolynomial :: "('f::field, 'g) proverEnv \<Rightarrow>
    'f \<Rightarrow> 'f \<Rightarrow> 'f \<Rightarrow> 'f \<Rightarrow> 'f \<Rightarrow> 'f \<Rightarrow> 'f \<Rightarrow> 'f \<Rightarrow> 'f list \<Rightarrow> ('f, 'g) ProvingKey \<Rightarrow> 'f list go" where
  "computeLinearizedPolynomial env lZeta rZeta oZeta alpha beta gamma zeta zu blindedZCanonical pk =
     (let canReg = \<lparr>Basis_of = Canonical, Layout_of = Regular\<rparr>;
          rl = rZeta * lZeta;
          s1a = PolyEvaluate env (NewPolynomial env (S1Canonical pk) canReg) zeta * beta + lZeta + gamma;
          tmp1 = PolyEvaluate env (NewPolynomial env (S2Canonical pk) canReg) zeta * beta + rZeta + gamma;
          s1 = s1a * tmp1 * zu * beta;
          uzeta = zeta * CosetShift (Vk pk);
          uuzeta = uzeta * CosetShift (Vk pk);
          s2a = beta * zeta + lZeta + gamma;
          tmp2 = beta * uzeta + rZeta + gamma;
          s2b = s2a * tmp2;
          tmp3 = beta * uuzeta + oZeta + gamma;
          s2 = - (s2b * tmp3);
          one = 1;
          nbElmt = sint (Cardinality (Domain_0 pk));
          den = inverse (zeta - one);
          lagrangeZeta = (frExp zeta nbElmt - one) * den * alpha * alpha
                           * CardinalityInv (Domain_0 pk);
          linPol = blindedZCanonical
      in forEach [0 ..< length linPol]
           (linPolCoefficient pk blindedZCanonical lZeta rZeta oZeta alpha rl s1 s2 lagrangeZeta one)
           linPol)"

section \<open>The PLONK prover: \<open>Prove\<close>\<close>

text \<open>Slices \<open>xs[:k]\<close>, \<open>xs[k:]\<close> and \<open>xs[lo:hi]\<close>, the built-in \<open>copy\<close>, and \<open>make\<close> with a
  \<open>uint64\<close> length.\<close>

definition sliceTo :: "'a list \<Rightarrow> nat \<Rightarrow> 'a list go" where
  "sliceTo xs k = (if k \<le> length xs then Inr (take k xs) else Inl SliceBoundsOutOfRange)"

definition sliceFrom :: "'a list \<Rightarrow> nat \<Rightarrow> 'a list go" where
  "sliceFrom xs k = (if k \<le> length xs then Inr (drop k xs) else Inl SliceBoundsOutOfRange)"

definition slice :: "'a list \<Rightarrow> nat \<Rightarrow> nat \<Rightarrow> 'a list go" where
  "slice xs lo hi =
     (if lo \<le> hi \<and> hi \<le> length xs then Inr (take (hi - lo) (drop lo xs))
      else Inl SliceBoundsOutOfRange)"

definition copySlice :: "'a list \<Rightarrow> 'a list \<Rightarrow> 'a list" where
  "copySlice dst src = take (min (length dst) (length src)) src @ drop (length src) dst"

definition makeSliceU64 :: "64 word \<Rightarrow> 'f \<Rightarrow> 'f list go" where
  "makeSliceU64 n z =
     (if 2 ^ 63 \<le> unat n then Inl MakeSliceLenOutOfRange else Inr (replicate (unat n) z))"

text \<open>
  The local variables of \<open>Prove\<close> that outlive a step. A run ends in a panic, or returns
  the proof pointer (\<open>None\<close> is nil) and the error (\<open>None\<close> is nil), or goes on to the next
  step; the variables are kept with the result so that a run can be inspected.
\<close>

record ('f, 'g) frame =
  v_proof :: "('f, 'g) Proof"
  v_fs :: "('f, 'g) Transcript"
  v_solution :: "'f list"
  v_wliop :: "'f WrappedPolynomial"
  v_wriop :: "'f WrappedPolynomial"
  v_woiop :: "'f WrappedPolynomial"
  v_gamma :: 'f
  v_beta :: 'f
  v_alpha :: 'f
  v_zeta :: 'f
  v_ziop :: "'f Polynomial"
  v_wziop :: "'f WrappedPolynomial"
  v_constraints :: "'f Polynomial"
  v_ordering :: "'f Polynomial"
  v_h :: "'f Polynomial"
  v_bzuzeta :: 'f
  v_blindedZ :: "'f list"
  v_linearizedPolynomialCanonical :: "'f list"
  v_linearizedPolynomialDigest :: 'g
  v_foldedHDigest :: 'g
  v_foldedH :: "'f list"

datatype ('f, 'g) flow =
    Panicked panic
  | Returned "('f, 'g) Proof option" "error option" "('f, 'g) frame"
  | Continues "('f, 'g) frame"

definition orPanic :: "'a go \<Rightarrow> ('a \<Rightarrow> ('f, 'g) flow) \<Rightarrow> ('f, 'g) flow" where
  "orPanic m k = (case m of Inl p \<Rightarrow> Panicked p | Inr a \<Rightarrow> k a)"

definition thenStep :: "('f, 'g) flow \<Rightarrow> (('f, 'g) frame \<Rightarrow> ('f, 'g) flow) \<Rightarrow> ('f, 'g) flow" where
  "thenStep m k = (case m of Continues fr \<Rightarrow> k fr | Panicked p \<Rightarrow> Panicked p
                   | Returned prf err fr \<Rightarrow> Returned prf err fr)"

definition canReg :: Form where
  "canReg = \<lparr>Basis_of = Canonical, Layout_of = Regular\<rparr>"

definition lagReg :: Form where
  "lagReg = \<lparr>Basis_of = Lagrange, Layout_of = Regular\<rparr>"

definition emptyPolynomial :: "'f Polynomial" where
  "emptyPolynomial = \<lparr>Coefficients = [], Form_of = canReg\<rparr>"

definition emptyFrame :: "('f::zero, 'g::zero) frame" where
  "emptyFrame = \<lparr>v_proof = emptyProof,
     v_fs = NewTranscript [''gamma'', ''beta'', ''alpha'', ''zeta''],
     v_solution = [],
     v_wliop = \<lparr>P = emptyPolynomial, Shift = 0, Size = 0\<rparr>,
     v_wriop = \<lparr>P = emptyPolynomial, Shift = 0, Size = 0\<rparr>,
     v_woiop = \<lparr>P = emptyPolynomial, Shift = 0, Size = 0\<rparr>,
     v_gamma = 0, v_beta = 0, v_alpha = 0, v_zeta = 0,
     v_ziop = emptyPolynomial,
     v_wziop = \<lparr>P = emptyPolynomial, Shift = 0, Size = 0\<rparr>,
     v_constraints = emptyPolynomial, v_ordering = emptyPolynomial, v_h = emptyPolynomial,
     v_bzuzeta = 0, v_blindedZ = [],
     v_linearizedPolynomialCanonical = [], v_linearizedPolynomialDigest = 0,
     v_foldedHDigest = 0, v_foldedH = []\<rparr>"

subsection \<open>Solving, and the forced tail\<close>

text \<open>
  \<open>for i := len(spr.Public) + len(spr.Secret); i < len(solution); i++ { solution[i] = r;
  r.Double(&r) }\<close>
\<close>

fun fillForced :: "nat list \<Rightarrow> 'f::field \<Rightarrow> 'f list \<Rightarrow> 'f list" where
  "fillForced [] r solution = solution"
| "fillForced (i # is) r solution = fillForced is (r + r) (solution[i := r])"

definition solveStep :: "('f::field, 'g) proverEnv \<Rightarrow> SparseR1CS \<Rightarrow> 'f list \<Rightarrow> ProverConfig \<Rightarrow>
    ('f, 'g) frame \<Rightarrow> ('f, 'g) flow" where
  "solveStep env spr fullWitness opt fr =
     (case Solve env spr fullWitness opt of
        (solution, Some err) \<Rightarrow>
          if \<not> Force opt then Returned None (Some err) (fr\<lparr>v_solution := solution\<rparr>)
          else Continues (fr\<lparr>v_solution :=
                 fillForced [length (Public spr) + length (Secret spr) ..< length solution]
                   (SetRandom env) solution\<rparr>)
      | (solution, None) \<Rightarrow> Continues (fr\<lparr>v_solution := solution\<rparr>))"

subsection \<open>The wire polynomials and their commitments\<close>

text \<open>
  \<open>wliop := liop.WrapMe(0)\<close> wraps a pointer to \<open>liop\<close>: a conversion through \<open>wliop\<close>
  converts \<open>liop\<close>, and \<open>liop\<close> is read as \<open>P wliop\<close> afterwards.
\<close>

definition lroStep :: "('f::field, 'g) proverEnv \<Rightarrow> SparseR1CS \<Rightarrow> ('f, 'g) ProvingKey \<Rightarrow>
    ('f, 'g) frame \<Rightarrow> ('f, 'g) flow" where
  "lroStep env spr pk fr =
     orPanic (evaluateLROSmallDomain spr pk (v_solution fr))
       (\<lambda>(evaluationLDomainSmall, evaluationRDomainSmall, evaluationODomainSmall).
     let liop = \<lparr>Coefficients = evaluationLDomainSmall, Form_of = lagReg\<rparr>;
         riop = \<lparr>Coefficients = evaluationRDomainSmall, Form_of = lagReg\<rparr>;
         oiop = \<lparr>Coefficients = evaluationODomainSmall, Form_of = lagReg\<rparr>;
         wliop = ToRegular env (ToCanonical env (WrapMe env liop 0) (Domain_0 pk));
         wriop = ToRegular env (ToCanonical env (WrapMe env riop 0) (Domain_0 pk));
         woiop = ToRegular env (ToCanonical env (WrapMe env oiop 0) (Domain_0 pk));
         fr1 = fr\<lparr>v_wliop := wliop, v_wriop := wriop, v_woiop := woiop\<rparr>
     in (case commitToLRO env (Coefficients (P wliop)) (Coefficients (P wriop))
               (Coefficients (P woiop)) (v_proof fr) of
          (Some err, prf, tr) \<Rightarrow> Returned None (Some err) (fr1\<lparr>v_proof := prf\<rparr>)
        | (None, prf, tr) \<Rightarrow> Continues (fr1\<lparr>v_proof := prf\<rparr>)))"

subsection \<open>The challenges gamma and beta\<close>

definition gammaBetaStep :: "('f::field, 'g) proverEnv \<Rightarrow> SparseR1CS \<Rightarrow> ('f, 'g) ProvingKey \<Rightarrow>
    'f list \<Rightarrow> ('f, 'g) frame \<Rightarrow> ('f, 'g) flow" where
  "gammaBetaStep env spr pk fullWitness fr =
     orPanic (sliceTo fullWitness (length (Public spr))) (\<lambda>publicInputs.
     case bindPublicData env (v_fs fr) ''gamma'' (Vk pk) publicInputs of
       (t1, Some err) \<Rightarrow> Returned None (Some err) (fr\<lparr>v_fs := t1\<rparr>)
     | (t1, None) \<Rightarrow>
     (case deriveRandomness env t1 ''gamma''
             [LRO (v_proof fr) ! 0, LRO (v_proof fr) ! 1, LRO (v_proof fr) ! 2] of
       (t2, gamma, Some err) \<Rightarrow> Returned None (Some err) (fr\<lparr>v_fs := t2\<rparr>)
     | (t2, gamma, None) \<Rightarrow>
     (case ComputeChallenge env t2 ''beta'' of
       (t3, bbeta, Some err) \<Rightarrow> Returned None (Some err) (fr\<lparr>v_fs := t3, v_gamma := gamma\<rparr>)
     | (t3, bbeta, None) \<Rightarrow>
         Continues (fr\<lparr>v_fs := t3, v_gamma := gamma, v_beta := SetBytes env bbeta\<rparr>))))"

subsection \<open>The permutation polynomial and the challenge alpha\<close>

definition zAlphaStep :: "('f::field, 'g) proverEnv \<Rightarrow> ('f, 'g) ProvingKey \<Rightarrow>
    ('f, 'g) frame \<Rightarrow> ('f, 'g) flow" where
  "zAlphaStep env pk fr =
     (case BuildRatioCopyConstraint env
             [Copy env (P (v_wliop fr)), Copy env (P (v_wriop fr)), Copy env (P (v_woiop fr))]
             (Permutation pk) (v_beta fr) (v_gamma fr) canReg (Domain_0 pk) of
        (ziop, Some err) \<Rightarrow> Returned (Some (v_proof fr)) (Some err) (fr\<lparr>v_ziop := ziop\<rparr>)
      | (ziop, None) \<Rightarrow>
     (case Commit env (Coefficients ziop) of (digestZ, errZ) \<Rightarrow>
        let prf = (v_proof fr)\<lparr>Z := digestZ\<rparr>;
            fr1 = fr\<lparr>v_ziop := ziop, v_proof := prf\<rparr>
        in (case errZ of
              Some err \<Rightarrow> Returned (Some prf) (Some err) fr1
            | None \<Rightarrow>
          (case deriveRandomness env (v_fs fr) ''alpha'' [Z prf] of
             (t1, alpha, Some err) \<Rightarrow> Returned (Some prf) (Some err) (fr1\<lparr>v_fs := t1\<rparr>)
           | (t1, alpha, None) \<Rightarrow> Continues (fr1\<lparr>v_fs := t1, v_alpha := alpha\<rparr>)))))"

subsection \<open>The gate identity\<close>

text \<open>
  \<open>qk\<close> completed with the public inputs: \<open>copy(qk, fullWitness[:len(spr.Public)])\<close>, then
  \<open>copy(qk[len(spr.Public):], pk.LQk[len(spr.Public):])\<close>, then the inverse FFT and the bit
  reversal.
\<close>

definition qkCompleted :: "('f::field, 'g) proverEnv \<Rightarrow> SparseR1CS \<Rightarrow> ('f, 'g) ProvingKey \<Rightarrow>
    'f list \<Rightarrow> 'f list go" where
  "qkCompleted env spr pk fullWitness =
     andThen (makeSliceU64 (Cardinality (Domain_0 pk)) 0) (\<lambda>qk0.
     andThen (sliceTo fullWitness (length (Public spr))) (\<lambda>publicInputs.
     let qk1 = copySlice qk0 publicInputs in
     andThen (sliceFrom qk1 (length (Public spr))) (\<lambda>dst.
     andThen (sliceFrom (LQk pk) (length (Public spr))) (\<lambda>src.
     let qk2 = take (length (Public spr)) qk1 @ copySlice dst src in
     Inr (BitReverseCoefficients env (FFTInverse env (Domain_0 pk) qk2))))))"

definition constraintsCapture :: "'f::field MultivariatePolynomial" where
  "constraintsCapture =
     AddMonomial (AddMonomial (AddMonomial (AddMonomial (AddMonomial \<lparr>M = [], C = 0\<rparr>
       1 [1, 0, 0, 0, 0, 1, 0, 0])
       1 [0, 1, 0, 0, 0, 0, 1, 0])
       1 [0, 0, 1, 0, 0, 1, 1, 0])
       1 [0, 0, 0, 1, 0, 0, 0, 1])
       1 [0, 0, 0, 0, 1, 0, 0, 0]"

definition gateStep :: "('f::field, 'g) proverEnv \<Rightarrow> SparseR1CS \<Rightarrow> ('f, 'g) ProvingKey \<Rightarrow>
    'f list \<Rightarrow> ('f, 'g) frame \<Rightarrow> ('f, 'g) flow" where
  "gateStep env spr pk fullWitness fr =
     orPanic (qkCompleted env spr pk fullWitness) (\<lambda>qkCompletedCanonical.
     let wliop = ToLagrangeCoset env (v_wliop fr) (Domain_1 pk);
         wriop = ToLagrangeCoset env (v_wriop fr) (Domain_1 pk);
         woiop = ToLagrangeCoset env (v_woiop fr) (Domain_1 pk);
         wqliop = ToLagrangeCoset env (WrapMe env (NewPolynomial env (Ql pk) canReg) 0) (Domain_1 pk);
         wqriop = ToLagrangeCoset env (WrapMe env (NewPolynomial env (Qr pk) canReg) 0) (Domain_1 pk);
         wqmiop = ToLagrangeCoset env (WrapMe env (NewPolynomial env (Qm pk) canReg) 0) (Domain_1 pk);
         wqoiop = ToLagrangeCoset env (WrapMe env (NewPolynomial env (Qo pk) canReg) 0) (Domain_1 pk);
         wqkiop = ToLagrangeCoset env
                    (WrapMe env (NewPolynomial env qkCompletedCanonical canReg) 0) (Domain_1 pk);
         fr1 = fr\<lparr>v_wliop := wliop, v_wriop := wriop, v_woiop := woiop\<rparr>
     in (case EvaluatePolynomials env constraintsCapture
               [wqliop, wqriop, wqmiop, wqoiop, wqkiop, wliop, wriop, woiop] of
           (constraints, Some err) \<Rightarrow> Returned (Some (v_proof fr)) (Some err) fr1
         | (constraints, None) \<Rightarrow> Continues (fr1\<lparr>v_constraints := constraints\<rparr>)))"

subsection \<open>The ordering identity\<close>

definition subOrderingCapture :: "'f::field \<Rightarrow> 'f \<Rightarrow> 'f MultivariatePolynomial" where
  "subOrderingCapture b gamma =
     (AddMonomial (AddMonomial \<lparr>M = [], C = 0\<rparr> 1 [1, 0]) b [0, 1])\<lparr>C := gamma\<rparr>"

definition orderingCapture :: "'f::field MultivariatePolynomial" where
  "orderingCapture =
     AddMonomial (AddMonomial \<lparr>M = [], C = 0\<rparr> 1 [1, 1, 1, 1, 0, 0, 0, 0])
       (- 1) [0, 0, 0, 0, 1, 1, 1, 1]"

text \<open>
  \<open>wziop := ziop.WrapMe(0)\<close> and \<open>wsziop := ziop.WrapMe(1)\<close> wrap the same polynomial: the
  conversions made through \<open>wsziop\<close> are conversions of \<open>ziop\<close>, which \<open>wziop\<close> then holds too.
  All of \<open>u\<close>, \<open>v\<close> and \<open>w\<close> are evaluated with \<open>subOrderingCapture[0]\<close>.
\<close>

definition orderingStep :: "('f::field, 'g) proverEnv \<Rightarrow> ('f, 'g) ProvingKey \<Rightarrow>
    ('f, 'g) frame \<Rightarrow> ('f, 'g) flow" where
  "orderingStep env pk fr =
     (let beta = v_beta fr; gamma = v_gamma fr;
          ubeta = beta * FrMultiplicativeGen (Domain_0 pk);
          uubeta = ubeta * FrMultiplicativeGen (Domain_0 pk);
          soc0 = subOrderingCapture beta gamma;
          soc1 = subOrderingCapture ubeta gamma;
          soc2 = subOrderingCapture uubeta gamma;
          wliop = v_wliop fr; wriop = v_wriop fr; woiop = v_woiop fr;
          prf = Some (v_proof fr)
      in
      orPanic (makeSliceU64 (Cardinality (Domain_1 pk)) 0) (\<lambda>id0.
      orPanic (setIdx id0 1 1) (\<lambda>id1.
      let widiop = ToLagrangeCoset env (WrapMe env (NewPolynomial env id1 canReg) 0) (Domain_1 pk) in
      (case EvaluatePolynomials env soc0 [wliop, widiop] of
         (a, Some err) \<Rightarrow> Returned prf (Some err) fr
       | (a, None) \<Rightarrow>
      (case EvaluatePolynomials env soc1 [wriop, widiop] of
         (b, Some err) \<Rightarrow> Returned prf (Some err) fr
       | (b, None) \<Rightarrow>
      (case EvaluatePolynomials env soc2 [woiop, widiop] of
         (c, Some err) \<Rightarrow> Returned prf (Some err) fr
       | (c, None) \<Rightarrow>
      let wa = WrapMe env a 0; wb = WrapMe env b 0; wc = WrapMe env c 0;
          ws1 = ToLagrangeCoset env (ToRegular env (ToCanonical env
                  (WrapMe env (NewPolynomial env (S1Canonical pk) canReg) 0) (Domain_0 pk)))
                  (Domain_1 pk)
      in
      (case EvaluatePolynomials env soc0 [wliop, ws1] of
         (u, Some err) \<Rightarrow> Returned prf (Some err) fr
       | (u, None) \<Rightarrow>
      let ws2 = ToLagrangeCoset env (ToRegular env (ToCanonical env
                  (WrapMe env (NewPolynomial env (S2Canonical pk) canReg) 0) (Domain_0 pk)))
                  (Domain_1 pk)
      in
      (case EvaluatePolynomials env soc0 [wriop, ws2] of
         (v, Some err) \<Rightarrow> Returned prf (Some err) fr
       | (v, None) \<Rightarrow>
      let ws3 = ToLagrangeCoset env (ToRegular env (ToCanonical env
                  (WrapMe env (NewPolynomial env (S3Canonical pk) canReg) 0) (Domain_0 pk)))
                  (Domain_1 pk)
      in
      (case EvaluatePolynomials env soc0 [woiop, ws3] of
         (w, Some err) \<Rightarrow> Returned prf (Some err) fr
       | (w, None) \<Rightarrow>
      let wu = WrapMe env u 0; wv = WrapMe env v 0; ww = WrapMe env w 0;
          wziop0 = WrapMe env (v_ziop fr) 0;
          wsziop = ToLagrangeCoset env (ToRegular env (ToCanonical env
                     (WrapMe env (v_ziop fr) 1) (Domain_0 pk))) (Domain_1 pk);
          wziop = wziop0\<lparr>P := P wsziop\<rparr>;
          fr1 = fr\<lparr>v_ziop := P wsziop, v_wziop := wziop\<rparr>
      in
      (case EvaluatePolynomials env orderingCapture
              [wsziop, wu, wv, ww, wziop, wa, wb, wc] of
         (orderingEv, Some err) \<Rightarrow> Returned prf (Some err) fr1
       | (orderingEv, None) \<Rightarrow> Continues (fr1\<lparr>v_ordering := orderingEv\<rparr>)))))))))))"

subsection \<open>The boundary identity and the quotient\<close>

definition startsAtOneCapture :: "'f::field MultivariatePolynomial" where
  "startsAtOneCapture = AddMonomial (AddMonomial \<lparr>M = [], C = 0\<rparr> 1 [1, 1]) (- 1) [0, 1]"

definition plonkCapture :: "'f::field \<Rightarrow> 'f MultivariatePolynomial" where
  "plonkCapture alpha =
     AddMonomial (AddMonomial (AddMonomial \<lparr>M = [], C = 0\<rparr> 1 [1, 0, 0]) alpha [0, 1, 0])
       (alpha * alpha) [0, 0, 1]"

definition quotientStep :: "('f::field, 'g) proverEnv \<Rightarrow> ('f, 'g) ProvingKey \<Rightarrow>
    ('f, 'g) frame \<Rightarrow> ('f, 'g) flow" where
  "quotientStep env pk fr =
     orPanic (makeSliceU64 (Cardinality (Domain_0 pk)) 0) (\<lambda>lone0.
     orPanic (setIdx lone0 0 1) (\<lambda>lone.
     let loneiop = NewPolynomial env lone lagReg;
         wloneiop = WrapMe env (PolyToLagrangeCoset env (PolyToRegular env
                      (PolyToCanonical env loneiop (Domain_0 pk))) (Domain_1 pk)) 0;
         prf = Some (v_proof fr)
     in
     (case EvaluatePolynomials env startsAtOneCapture [v_wziop fr, wloneiop] of
        (startsAtOne, Some err) \<Rightarrow> Returned prf (Some err) fr
      | (startsAtOne, None) \<Rightarrow>
     let wconstraints = WrapMe env (v_constraints fr) 0;
         wordering = WrapMe env (v_ordering fr) 0;
         wstartsAtOne = WrapMe env startsAtOne 0
     in
     (case ComputeQuotient env [wconstraints, wordering, wstartsAtOne]
             (plonkCapture (v_alpha fr)) (Domain_0 pk) (Domain_1 pk) of
        (h, Some err) \<Rightarrow> Returned prf (Some err) (fr\<lparr>v_h := h\<rparr>)
      | (h, None) \<Rightarrow> Continues (fr\<lparr>v_h := h\<rparr>)))))"

subsection \<open>The quotient chunks and the challenge zeta\<close>

text \<open>The chunk bounds are computed in \<open>uint64\<close>.\<close>

definition chunkSize :: "('f, 'g) ProvingKey \<Rightarrow> 64 word" where
  "chunkSize pk = Cardinality (Domain_0 pk) + 2"

definition zetaStep :: "('f::field, 'g) proverEnv \<Rightarrow> ('f, 'g) ProvingKey \<Rightarrow>
    ('f, 'g) frame \<Rightarrow> ('f, 'g) flow" where
  "zetaStep env pk fr =
     orPanic (sliceTo (Coefficients (v_h fr)) (unat (chunkSize pk))) (\<lambda>h1.
     orPanic (slice (Coefficients (v_h fr)) (unat (chunkSize pk)) (unat (2 * chunkSize pk))) (\<lambda>h2.
     orPanic (slice (Coefficients (v_h fr)) (unat (2 * chunkSize pk)) (unat (3 * chunkSize pk))) (\<lambda>h3.
     (case commitToQuotient env h1 h2 h3 (v_proof fr) of
        (Some err, prf, tr) \<Rightarrow> Returned None (Some err) (fr\<lparr>v_proof := prf\<rparr>)
      | (None, prf, tr) \<Rightarrow>
     (case deriveRandomness env (v_fs fr) ''zeta'' [H prf ! 0, H prf ! 1, H prf ! 2] of
        (t1, zeta, Some err) \<Rightarrow> Returned None (Some err) (fr\<lparr>v_proof := prf, v_fs := t1\<rparr>)
      | (t1, zeta, None) \<Rightarrow> Continues (fr\<lparr>v_proof := prf, v_fs := t1, v_zeta := zeta\<rparr>))))))"

subsection \<open>The openings\<close>

text \<open>
  One pass of the folding loop, which overwrites the third chunk of \<open>h\<close> in place:
  \<open>foldedH[i] = (foldedH[i] * zetaPowerm + h2[i]) * zetaPowerm + h1[i]\<close>.
\<close>

definition foldCoefficient :: "'f::field \<Rightarrow> 'f list \<Rightarrow> 'f list \<Rightarrow> nat \<Rightarrow> 'f list \<Rightarrow> 'f list go" where
  "foldCoefficient zetaPowerm h2 h1 i foldedH =
     andThen (getIdx foldedH i) (\<lambda>x.
     andThen (getIdx h2 i) (\<lambda>y.
     andThen (getIdx h1 i) (\<lambda>z.
     setIdx foldedH i ((x * zetaPowerm + y) * zetaPowerm + z))))"

text \<open>
  \<open>v_h\<close> keeps the quotient as \<open>ComputeQuotient\<close> returned it; the folded third chunk is
  \<open>v_foldedH\<close>.
\<close>

definition openingStep :: "('f::field, 'g::ab_group_add) proverEnv \<Rightarrow> ('f, 'g) ProvingKey \<Rightarrow>
    ('f, 'g) frame \<Rightarrow> ('f, 'g) flow" where
  "openingStep env pk fr =
     (let zeta = v_zeta fr;
          wliop = ToRegular env (ToCanonical env (v_wliop fr) (Domain_1 pk));
          wriop = ToRegular env (ToCanonical env (v_wriop fr) (Domain_1 pk));
          woiop = ToRegular env (ToCanonical env (v_woiop fr) (Domain_1 pk));
          blzeta = Evaluate env wliop zeta;
          brzeta = Evaluate env wriop zeta;
          bozeta = Evaluate env woiop zeta;
          wziop = ToRegular env (ToCanonical env (v_wziop fr) (Domain_1 pk));
          zetaShifted = zeta * Generator (Vk pk);
          hc = Coefficients (v_h fr)
      in
      orPanic (sliceTo (Coefficients (P wziop)) (unat (Cardinality (Domain_0 pk)))) (\<lambda>zc.
      (case Open env zc zetaShifted of (opening, errOpen) \<Rightarrow>
      let prf = (v_proof fr)\<lparr>ZShiftedOpening := opening\<rparr>;
          fr1 = fr\<lparr>v_wliop := wliop, v_wriop := wriop, v_woiop := woiop,
                   v_wziop := wziop, v_ziop := P wziop, v_proof := prf\<rparr>
      in
      (case errOpen of
         Some err \<Rightarrow> Returned None (Some err) fr1
       | None \<Rightarrow>
      let bzuzeta = ClaimedValue (ZShiftedOpening prf) in
      orPanic (sliceTo (Coefficients (P wziop)) (unat (Cardinality (Domain_0 pk) + 2))) (\<lambda>blindedZ.
      orPanic (computeLinearizedPolynomial env blzeta brzeta bozeta (v_alpha fr) (v_beta fr)
                 (v_gamma fr) zeta bzuzeta blindedZ pk) (\<lambda>linearizedPolynomialCanonical.
      (case Commit env linearizedPolynomialCanonical of (linearizedPolynomialDigest, errLPoly) \<Rightarrow>
      let zetaPowerm = zeta ^ unat (Cardinality (Domain_0 pk) + 2);
          foldedHDigest =
            ScalarMultiplication env
              (ScalarMultiplication env (H prf ! 2) zetaPowerm + H prf ! 1) zetaPowerm
            + H prf ! 0
      in
      orPanic (slice hc (unat (2 * chunkSize pk)) (unat (3 * chunkSize pk))) (\<lambda>foldedH0.
      orPanic (slice hc (unat (chunkSize pk)) (unat (2 * chunkSize pk))) (\<lambda>h2.
      orPanic (sliceTo hc (unat (chunkSize pk))) (\<lambda>h1.
      orPanic (forEach [0 ..< length foldedH0] (foldCoefficient zetaPowerm h2 h1) foldedH0) (\<lambda>foldedH.
      let fr2 = fr1\<lparr>v_bzuzeta := bzuzeta, v_blindedZ := blindedZ,
                    v_linearizedPolynomialCanonical := linearizedPolynomialCanonical,
                    v_linearizedPolynomialDigest := linearizedPolynomialDigest,
                    v_foldedHDigest := foldedHDigest, v_foldedH := foldedH\<rparr>
      in
      (case errLPoly of
         Some err \<Rightarrow> Returned None (Some err) fr2
       | None \<Rightarrow>
      orPanic (sliceTo (Coefficients (P wliop)) (Size wliop)) (\<lambda>cl.
      orPanic (sliceTo (Coefficients (P wriop)) (Size wriop)) (\<lambda>cr.
      orPanic (sliceTo (Coefficients (P woiop)) (Size woiop)) (\<lambda>co.
      (case BatchOpenSinglePoint env
              [foldedH, linearizedPolynomialCanonical, cl, cr, co, S1Canonical pk, S2Canonical pk]
              [foldedHDigest, linearizedPolynomialDigest, LRO prf ! 0, LRO prf ! 1, LRO prf ! 2,
               VkS (Vk pk) ! 0, VkS (Vk pk) ! 1]
              zeta of (batched, errBatch) \<Rightarrow>
      let prf2 = prf\<lparr>BatchedProof := batched\<rparr>;
          fr3 = fr2\<lparr>v_proof := prf2\<rparr>
      in
      (case errBatch of
         Some err \<Rightarrow> Returned None (Some err) fr3
       | None \<Rightarrow> Returned (Some prf2) None fr3)))))))))))))))))"

subsection \<open>\<open>Prove\<close>\<close>

definition Prove :: "('f::field, 'g::ab_group_add) proverEnv \<Rightarrow> SparseR1CS \<Rightarrow> ('f, 'g) ProvingKey \<Rightarrow>
    'f list \<Rightarrow> ProverConfig \<Rightarrow> ('f, 'g) flow" where
  "Prove env spr pk fullWitness opt =
     thenStep (thenStep (thenStep (thenStep (thenStep (thenStep (thenStep (thenStep
       (solveStep env spr fullWitness opt emptyFrame)
       (lroStep env spr pk))
       (gammaBetaStep env spr pk fullWitness))
       (zAlphaStep env pk))
       (gateStep env spr pk fullWitness))
       (orderingStep env pk))
       (quotientStep env pk))
       (zetaStep env pk))
       (openingStep env pk)"

text \<open>
  The nine steps in order. \<open>runSteps\<close> runs a list of steps from a starting flow: a step is
  run only if everything before it went on, and the first return or panic is the result.
\<close>

definition proveSteps :: "('f::field, 'g::ab_group_add) proverEnv \<Rightarrow> SparseR1CS \<Rightarrow> ('f, 'g) ProvingKey \<Rightarrow>
    'f list \<Rightarrow> ProverConfig \<Rightarrow> (('f, 'g) frame \<Rightarrow> ('f, 'g) flow) list" where
  "proveSteps env spr pk fullWitness opt =
     [solveStep env spr fullWitness opt,
      lroStep env spr pk,
      gammaBetaStep env spr pk fullWitness,
      zAlphaStep env pk,
      gateStep env spr pk fullWitness,
      orderingStep env pk,
      quotientStep env pk,
      zetaStep env pk,
      openingStep env pk]"

definition runSteps :: "(('f, 'g) frame \<Rightarrow> ('f, 'g) flow) list \<Rightarrow> ('f, 'g) flow \<Rightarrow> ('f, 'g) flow" where
  "runSteps steps start = foldl thenStep start steps"



section \<open>A small instance\<close>

definition exampleDomain :: "64 word \<Rightarrow> rat FFTDomain" where
  "exampleDomain n = \<lparr>Cardinality = n, CardinalityInv = 1, FrMultiplicativeGen = 1\<rparr>"

definition examplePk :: "(rat, rat) ProvingKey" where
  "examplePk = \<lparr>Vk = \<lparr>Generator = 1, CosetShift = 1, VkS = [1, 2, 3], VkFixed = []\<rparr>,
     Ql = [0, 0, 0, 0], Qr = [0, 0, 0, 0], Qm = [0, 0, 0, 0], Qo = [0, 0, 0, 0],
     CQk = [0, 0, 0, 0], LQk = [0, 0, 0, 0],
     Domain_0 = exampleDomain 4, Domain_1 = exampleDomain 32, Permutation = [],
     S1Canonical = [1, 0, 0, 0], S2Canonical = [2, 0, 0, 0], S3Canonical = [3, 0, 0, 0]\<rparr>"

definition exampleSpr :: SparseR1CS where
  "exampleSpr = \<lparr>Public = [''x''], Secret = [''y''],
     Constraints = [\<lparr>L_WireID = 0, R_WireID = 1, O_WireID = 2\<rparr>]\<rparr>"


text \<open>
  A compressor environment for small runs: a limit of four input bytes, a search that
  never finds a match, and a writer that appends bytes to a list.
\<close>

definition exampleLzssEnv :: "byte list lzssEnv" where
  "exampleLzssEnv = \<lparr>maxInputSize = 4, symbolDict = 255, symbolShort = 254, symbolLong = 253,
     newBackRefType = (\<lambda>sym nbAddr nbLen dOnly.
        \<lparr>delimiter = sym, nbBitsAddress = nbAddr, nbBitsLength = nbLen,
         nbBytesBackRef = (8 + uint nbAddr + uint nbLen + 7) div 8,
         maxAddress = 2 ^ unat nbAddr, maxLength = 2 ^ unat nbLen, dictOnly = dOnly\<rparr>),
     savings = (\<lambda>b. if length_br b = - 1 then - (2 ^ 63)
                     else 8 * length_br b - (8 + uint (nbBitsAddress (bType b)) + uint (nbBitsLength (bType b)))),
     writeTo = (\<lambda>b w i. w @ [delimiter (bType b)]),
     LookupLongest = (\<lambda>data t minLen maxLen rangeStart rangeEnd. (- 1, - 1)),
     NewWriter = [],
     TryWriteByte = (\<lambda>w b. w @ [b]),
     TryError = (\<lambda>w. None),
     Close = (\<lambda>w. None),
     Bytes = (\<lambda>w. w)\<rparr>"

text \<open>A compressor that has not compressed yet, and the same with the index of the input 255.\<close>

definition exampleCompressor :: "byte list Compressor" where
  "exampleCompressor = \<lparr>bw_c = None, inputIndex = None,
     dictData = [255, 254, 253], compressionMode = 8\<rparr>"

definition exampleCompressorInLoop :: "byte list Compressor" where
  "exampleCompressorInLoop = exampleCompressor\<lparr>bw_c := Some [], inputIndex := Some [255]\<rparr>"

text \<open>The loop state in which \<open>Compress\<close> enters its loop in that environment.\<close>

definition exampleLoopState :: "byte list loopState" where
  "exampleLoopState = \<lparr>pos = 0, bw = [],
     bDict = \<lparr>bType = newBackRefType exampleLzssEnv 255 8 8 True, address_br = - 1, length_br = - 1\<rparr>,
     bShort = \<lparr>bType = newBackRefType exampleLzssEnv 254 16 8 False, address_br = - 1, length_br = - 1\<rparr>,
     bLong = \<lparr>bType = newBackRefType exampleLzssEnv 253 24 8 False, address_br = - 1, length_br = - 1\<rparr>\<rparr>"

text \<open>
  Collaborators for small runs of the prover over the rationals: the solver appends the sum
  of the two inputs as the internal wire, the conversions between bases keep the
  coefficients, a commitment is the sum of the coefficients, an opening evaluates by
  Horner's rule, a challenge is the number of entries in the transcript's log, and the scalar
  multiplication is the product.
\<close>

definition horner :: "rat list \<Rightarrow> rat \<Rightarrow> rat" where
  "horner cs x = foldr (\<lambda>c acc. c + x * acc) cs 0"

definition exampleEnv :: "(rat, rat) proverEnv" where
  "exampleEnv = \<lparr>
     Solve = (\<lambda>spr w opt. (w @ [w ! 0 + w ! 1], None)),
     SetRandom = 3,
     NewPolynomial = (\<lambda>cs f. \<lparr>Coefficients = cs, Form_of = f\<rparr>),
     WrapMe = (\<lambda>p s. \<lparr>P = p, Shift = s, Size = length (Coefficients p)\<rparr>),
     ToCanonical = (\<lambda>w d. w),
     ToRegular = (\<lambda>w. w),
     ToLagrangeCoset = (\<lambda>w d. w),
     PolyToCanonical = (\<lambda>p d. p),
     PolyToRegular = (\<lambda>p. p),
     PolyToLagrangeCoset = (\<lambda>p d. p),
     Copy = (\<lambda>p. p),
     Evaluate = (\<lambda>w x. horner (Coefficients (P w)) x),
     PolyEvaluate = (\<lambda>p x. horner (Coefficients p) x),
     BuildRatioCopyConstraint = (\<lambda>ps perm beta gamma f d.
        (\<lparr>Coefficients = [1, 0, 0, 0, 0, 0], Form_of = f\<rparr>, None)),
     EvaluatePolynomials = (\<lambda>mp ws. (P (hd ws), None)),
     ComputeQuotient = (\<lambda>ws mp d0 d1.
        (\<lparr>Coefficients = [1, 2, 0, 0, 0, 0, 3, 0, 1, 0, 0, 0, 0, 0, 0, 5, 0, 0],
          Form_of = \<lparr>Basis_of = Canonical, Layout_of = Regular\<rparr>\<rparr>, None)),
     FFTInverse = (\<lambda>d xs. xs),
     BitReverseCoefficients = (\<lambda>xs. xs),
     Commit = (\<lambda>cs. (sum_list cs, None)),
     Open = (\<lambda>cs z. (\<lparr>OpeningH = 0, ClaimedValue = horner cs z\<rparr>, None)),
     BatchOpenSinglePoint = (\<lambda>ps ds z.
        (\<lparr>BatchH = sum_list ds, ClaimedValues = map (\<lambda>p. horner p z) ps\<rparr>, None)),
     ScalarMultiplication = (\<lambda>g s. g * s),
     BindFails = (\<lambda>t name x. None),
     ChallengeBytes = (\<lambda>t name. (replicate (length (fsLog t)) 0, None)),
     SetBytes = (\<lambda>b. of_nat (length b))\<rparr>"


definition exampleEnvUnsolved :: "(rat, rat) proverEnv" where
  "exampleEnvUnsolved = exampleEnv\<lparr>
     Solve := (\<lambda>spr w opt. (w @ [1, 2], Some (Failure ''unsolved''))),
     SetRandom := 0\<rparr>"

definition exampleEnvNoCommit :: "(rat, rat) proverEnv" where
  "exampleEnvNoCommit = exampleEnv\<lparr>Commit := (\<lambda>cs. (0, Some (Failure ''srs'')))\<rparr>"

section \<open>Evaluation extraction fills the three columns row by row\<close>

lemma andThen_Inr_iff: "andThen m f = Inr y \<longleftrightarrow> (\<exists>a. m = Inr a \<and> f a = Inr y)"
  by (cases m) (simp_all add: andThen_def)

lemma andThen_Inr [simp]: "andThen (Inr a) f = f a"
  by (simp add: andThen_def)

lemma andThen_Inl [simp]: "andThen (Inl p) f = Inl p"
  by (simp add: andThen_def)

lemma forEach_append: "forEach (xs @ ys) body s = andThen (forEach xs body s) (forEach ys body)"
  by (induction xs arbitrary: s) (auto simp: andThen_def split: sum.splits)

lemma forEach_upt_Suc: "forEach [a ..< Suc (a + n)] body s = andThen (forEach [a ..< a + n] body s) (body (a + n))"
proof -
  have "forEach [a + n] body t = body (a + n) t" for t
    by (cases "body (a + n) t") simp_all
  then have "forEach [a + n] body = body (a + n)" by blast
  then show ?thesis by (simp add: forEach_append)
qed

lemma getIdx_Inr_iff: "getIdx xs i = Inr v \<longleftrightarrow> i < length xs \<and> v = xs ! i"
  by (auto simp: getIdx_def)

lemma setIdx_Inr_iff: "setIdx xs i v = Inr ys \<longleftrightarrow> i < length xs \<and> ys = xs[i := v]"
  by (auto simp: setIdx_def)

lemma placeholderRow_Inr_iff:
  "placeholderRow solution s0 i (xl, xr, xo) = Inr res \<longleftrightarrow>
     i < length solution \<and> i < length xl \<and> i < length xr \<and> i < length xo \<and>
     res = (xl[i := solution ! i], xr[i := s0], xo[i := s0])"
  by (auto simp: placeholderRow_def andThen_Inr_iff getIdx_Inr_iff setIdx_Inr_iff)

lemma constraintRow_Inr_iff:
  "constraintRow cs solution offset i (xl, xr, xo) = Inr res \<longleftrightarrow>
     i < length cs \<and> L_WireID (cs ! i) < length solution \<and> R_WireID (cs ! i) < length solution \<and>
     O_WireID (cs ! i) < length solution \<and>
     offset + i < length xl \<and> offset + i < length xr \<and> offset + i < length xo \<and>
     res = (xl[offset + i := solution ! L_WireID (cs ! i)],
            xr[offset + i := solution ! R_WireID (cs ! i)],
            xo[offset + i := solution ! O_WireID (cs ! i)])"
  by (auto simp: constraintRow_def andThen_Inr_iff getIdx_Inr_iff setIdx_Inr_iff)

lemma paddingRow_Inr_iff:
  "paddingRow s0 offset i (xl, xr, xo) = Inr res \<longleftrightarrow>
     offset + i < length xl \<and> offset + i < length xr \<and> offset + i < length xo \<and>
     res = (xl[offset + i := s0], xr[offset + i := s0], xo[offset + i := s0])"
  by (auto simp: paddingRow_def andThen_Inr_iff setIdx_Inr_iff)


lemma length_fill [simp]: "length (fill offset n f xs) = length xs"
  by (simp add: fill_def)

lemma nth_fill:
  "k < length xs \<Longrightarrow>
   fill offset n f xs ! k = (if offset \<le> k \<and> k < offset + n then f (k - offset) else xs ! k)"
  by (simp add: fill_def)

lemma fill_0 [simp]: "fill offset 0 f xs = xs"
proof (rule nth_equalityI)
  show "length (fill offset 0 f xs) = length xs" by simp
next
  fix i assume "i < length (fill offset 0 f xs)"
  then have "i < length xs" by simp
  then show "fill offset 0 f xs ! i = xs ! i"
    by (auto simp: nth_fill)
qed

lemma fill_Suc: "(fill offset n f xs)[offset + n := f n] = fill offset (Suc n) f xs"
proof (rule nth_equalityI)
  show "length ((fill offset n f xs)[offset + n := f n]) = length (fill offset (Suc n) f xs)"
    by simp
next
  fix i assume "i < length ((fill offset n f xs)[offset + n := f n])"
  then have i: "i < length xs" by simp
  show "(fill offset n f xs)[offset + n := f n] ! i = fill offset (Suc n) f xs ! i"
  proof (cases "i = offset + n")
    case True
    with i show ?thesis by (simp add: nth_fill)
  next
    case False
    with i show ?thesis by (auto simp: nth_fill)
  qed
qed

lemma fill_loop:
  assumes body: "\<And>i xl xr xo res. body i (xl, xr, xo) = Inr res \<longleftrightarrow>
      ok i \<and> offset + i < length xl \<and> offset + i < length xr \<and> offset + i < length xo \<and>
      res = (xl[offset + i := fl i], xr[offset + i := fr i], xo[offset + i := fo i])"
  shows "forEach [0 ..< n] body (xl, xr, xo) = Inr res \<longleftrightarrow>
      (\<forall>i < n. ok i \<and> offset + i < length xl \<and> offset + i < length xr \<and> offset + i < length xo) \<and>
      res = (fill offset n fl xl, fill offset n fr xr, fill offset n fo xo)"
proof (induction n arbitrary: res)
  case 0
  then show ?case by auto
next
  case (Suc n)
  have "forEach [0 ..< Suc n] body (xl, xr, xo) =
        andThen (forEach [0 ..< n] body (xl, xr, xo)) (body n)"
    using forEach_upt_Suc [of 0 n body] by simp
  then show ?case
    by (auto simp: andThen_Inr_iff Suc.IH body fill_Suc less_Suc_eq)
qed


lemma nat_sint_nonneg: "0 \<le> sint (w :: 64 word) \<Longrightarrow> nat (sint w) = unat w"
proof -
  assume nonneg: "0 \<le> sint w"
  have "sint w < 2 ^ 64"
    using sint_lt [of w] by simp
  then have "take_bit 64 (sint w) = sint w"
    using nonneg by (simp add: take_bit_int_eq_self)
  then have "uint w = sint w"
    using uint_sint [of w] by simp
  then have "nat (sint w) = nat (uint w)" by simp
  then show ?thesis by (simp only: nat_uint_eq)
qed

lemma placeholders_loop:
  "forEach [0 ..< p] (placeholderRow solution s0) (xl, xr, xo) = Inr res \<longleftrightarrow>
     (\<forall>i < p. i < length solution \<and> i < length xl \<and> i < length xr \<and> i < length xo) \<and>
     res = (fill 0 p (\<lambda>i. solution ! i) xl, fill 0 p (\<lambda>_. s0) xr, fill 0 p (\<lambda>_. s0) xo)"
  using fill_loop [of "placeholderRow solution s0" "\<lambda>i. i < length solution" 0
      "\<lambda>i. solution ! i" "\<lambda>_. s0" "\<lambda>_. s0" p xl xr xo res]
  by (simp add: placeholderRow_Inr_iff)

lemma constraints_loop:
  "forEach [0 ..< length cs] (constraintRow cs solution offset) (xl, xr, xo) = Inr res \<longleftrightarrow>
     (\<forall>i < length cs. (L_WireID (cs ! i) < length solution \<and> R_WireID (cs ! i) < length solution \<and>
        O_WireID (cs ! i) < length solution) \<and>
        offset + i < length xl \<and> offset + i < length xr \<and> offset + i < length xo) \<and>
     res = (fill offset (length cs) (\<lambda>j. solution ! L_WireID (cs ! j)) xl,
            fill offset (length cs) (\<lambda>j. solution ! R_WireID (cs ! j)) xr,
            fill offset (length cs) (\<lambda>j. solution ! O_WireID (cs ! j)) xo)"
proof -
  have *: "forEach [0 ..< n] (constraintRow cs solution offset) (xl, xr, xo) = Inr res \<longleftrightarrow>
     (\<forall>i < n. (i < length cs \<and> L_WireID (cs ! i) < length solution \<and> R_WireID (cs ! i) < length solution \<and>
        O_WireID (cs ! i) < length solution) \<and>
        offset + i < length xl \<and> offset + i < length xr \<and> offset + i < length xo) \<and>
     res = (fill offset n (\<lambda>j. solution ! L_WireID (cs ! j)) xl,
            fill offset n (\<lambda>j. solution ! R_WireID (cs ! j)) xr,
            fill offset n (\<lambda>j. solution ! O_WireID (cs ! j)) xo)" for n
    by (rule fill_loop) (auto simp: constraintRow_Inr_iff)
  show ?thesis unfolding * by auto
qed

lemma padding_loop:
  "forEach [0 ..< n] (paddingRow s0 offset) (xl, xr, xo) = Inr res \<longleftrightarrow>
     (\<forall>i < n. offset + i < length xl \<and> offset + i < length xr \<and> offset + i < length xo) \<and>
     res = (fill offset n (\<lambda>_. s0) xl, fill offset n (\<lambda>_. s0) xr, fill offset n (\<lambda>_. s0) xo)"
  using fill_loop [of "paddingRow s0 offset" "\<lambda>_. True" offset
      "\<lambda>_. s0" "\<lambda>_. s0" "\<lambda>_. s0" n xl xr xo res]
  by (simp add: paddingRow_Inr_iff)

lemma evaluateLROSmallDomain_closed:
  fixes pk :: "('f::zero, 'g) ProvingKey" and spr :: SparseR1CS
  defines "p \<equiv> length (Public spr)" and "g \<equiv> length (Constraints spr)"
  shows "evaluateLROSmallDomain spr pk solution = Inr res \<longleftrightarrow>
     lroWellFormed spr pk solution \<and>
     res = (let n = unat (Cardinality (Domain_0 pk)); s0 = solution ! 0; z = replicate n 0 in
       (fill (p + g) (n - (p + g)) (\<lambda>_. s0)
          (fill p g (\<lambda>j. solution ! L_WireID (Constraints spr ! j)) (fill 0 p (\<lambda>i. solution ! i) z)),
        fill (p + g) (n - (p + g)) (\<lambda>_. s0)
          (fill p g (\<lambda>j. solution ! R_WireID (Constraints spr ! j)) (fill 0 p (\<lambda>i. s0) z)),
        fill (p + g) (n - (p + g)) (\<lambda>_. s0)
          (fill p g (\<lambda>j. solution ! O_WireID (Constraints spr ! j)) (fill 0 p (\<lambda>i. s0) z))))"
proof (cases "0 \<le> sint (Cardinality (Domain_0 pk))")
  case False
  then show ?thesis
    by (simp add: evaluateLROSmallDomain_def makeSlice_def lroWellFormed_def Let_def)
next
  case True
  define n where "n = unat (Cardinality (Domain_0 pk))"
  have ns: "nat (sint (Cardinality (Domain_0 pk))) = n"
    using True by (simp add: n_def nat_sint_nonneg)
  have cnt: "nat (sint (Cardinality (Domain_0 pk)) - (int p + int g)) = n - (p + g)"
    using True ns by linarith
  have wf: "lroWellFormed spr pk solution \<longleftrightarrow>
      solution \<noteq> [] \<and> p \<le> length solution \<and> p + g \<le> n \<and>
      (\<forall>j < g. L_WireID (Constraints spr ! j) < length solution \<and>
               R_WireID (Constraints spr ! j) < length solution \<and>
               O_WireID (Constraints spr ! j) < length solution)"
    using True by (auto simp: lroWellFormed_def p_def g_def n_def list_all_length)
  have "evaluateLROSmallDomain spr pk solution = Inr res \<longleftrightarrow>
      solution \<noteq> [] \<and> (\<forall>i < p. i < length solution \<and> i < n) \<and>
      (\<forall>j < g. (L_WireID (Constraints spr ! j) < length solution \<and>
               R_WireID (Constraints spr ! j) < length solution \<and>
               O_WireID (Constraints spr ! j) < length solution) \<and> p + j < n) \<and>
      res = (let s0 = solution ! 0; z = replicate n 0 in
       (fill (p + g) (n - (p + g)) (\<lambda>_. s0)
          (fill p g (\<lambda>j. solution ! L_WireID (Constraints spr ! j)) (fill 0 p (\<lambda>i. solution ! i) z)),
        fill (p + g) (n - (p + g)) (\<lambda>_. s0)
          (fill p g (\<lambda>j. solution ! R_WireID (Constraints spr ! j)) (fill 0 p (\<lambda>i. s0) z)),
        fill (p + g) (n - (p + g)) (\<lambda>_. s0)
          (fill p g (\<lambda>j. solution ! O_WireID (Constraints spr ! j)) (fill 0 p (\<lambda>i. s0) z))))"
    using True
    unfolding evaluateLROSmallDomain_def Let_def p_def [symmetric] g_def [symmetric]
    by (auto simp: makeSlice_def andThen_Inr_iff getIdx_Inr_iff ns cnt add.assoc
        placeholders_loop constraints_loop [of "Constraints spr", folded g_def] padding_loop)
  moreover have "(\<forall>i < p. i < length solution \<and> i < n) \<and> (\<forall>j < g. p + j < n) \<longleftrightarrow>
      p \<le> length solution \<and> p + g \<le> n" if "solution \<noteq> []"
  proof -
    from that have "0 < length solution" by simp
    show ?thesis
    proof (intro iffI conjI allI impI)
      assume h: "(\<forall>i < p. i < length solution \<and> i < n) \<and> (\<forall>j < g. p + j < n)"
      show "p \<le> length solution"
      proof (cases p)
        case 0 then show ?thesis by simp
      next
        case (Suc q)
        with h have "q < length solution" by simp
        with Suc show ?thesis by simp
      qed
      show "p + g \<le> n"
      proof (cases g)
        case 0
        show ?thesis
        proof (cases p)
          case 0 with \<open>g = 0\<close> show ?thesis by simp
        next
          case (Suc q)
          with h have "q < n" by simp
          with Suc \<open>g = 0\<close> show ?thesis by simp
        qed
      next
        case (Suc q)
        with h have "p + q < n" by simp
        with Suc show ?thesis by simp
      qed
    qed auto
  qed
  ultimately show ?thesis
    unfolding wf n_def [symmetric] Let_def by blast
qed


lemma three_fills_iff:
  assumes "length z = n" and "p + g \<le> n"
  shows "xs = fill (p + g) (n - (p + g)) c (fill p g b (fill 0 p a z)) \<longleftrightarrow>
     length xs = n \<and> (\<forall>i < p. xs ! i = a i) \<and> (\<forall>j < g. xs ! (p + j) = b j) \<and>
     (\<forall>k. p + g \<le> k \<and> k < n \<longrightarrow> xs ! k = c (k - (p + g)))"
    (is "?lhs \<longleftrightarrow> ?rhs")
proof
  assume ?lhs
  with assms show ?rhs by (auto simp: nth_fill)
next
  assume r: ?rhs
  show ?lhs
  proof (rule nth_equalityI)
    show "length xs = length (fill (p + g) (n - (p + g)) c (fill p g b (fill 0 p a z)))"
      using r assms by simp
  next
    fix k assume "k < length xs"
    with r have k: "k < n" by simp
    consider "k < p" | "p \<le> k" "k < p + g" | "p + g \<le> k"
      by linarith
    then show "xs ! k = fill (p + g) (n - (p + g)) c (fill p g b (fill 0 p a z)) ! k"
    proof cases
      case 1
      with r k assms show ?thesis by (simp add: nth_fill)
    next
      case 2
      then obtain j where j: "k = p + j" "j < g"
        by (metis add_diff_inverse_nat less_diff_conv2 not_less add.commute)
      with r have "xs ! k = b j" by simp
      with j k assms show ?thesis by (simp add: nth_fill)
    next
      case 3
      with r k have "xs ! k = c (k - (p + g))" by simp
      with 3 k assms show ?thesis by (simp add: nth_fill)
    qed
  qed
qed

text \<open>
  Claim C3. \<open>evaluateLROSmallDomain\<close> returns exactly when its input is well formed, and
  what it returns are three columns of the small domain's cardinality in which the row of
  public input \<open>i\<close> holds \<open>solution[i]\<close> in L and \<open>solution[0]\<close> in R and O, the row
  \<open>publicCount + j\<close> of gate \<open>j\<close> holds the solution values at the gate's L, R and O wire
  identifiers, and every later row up to the domain size holds \<open>solution[0]\<close> in all three.
\<close>

theorem evaluateLROSmallDomain_rows:
  fixes pk :: "('f::zero, 'g) ProvingKey" and spr :: SparseR1CS
  shows "evaluateLROSmallDomain spr pk solution = Inr (xl, xr, xo) \<longleftrightarrow>
     lroWellFormed spr pk solution \<and>
     length xl = unat (Cardinality (Domain_0 pk)) \<and>
     length xr = unat (Cardinality (Domain_0 pk)) \<and>
     length xo = unat (Cardinality (Domain_0 pk)) \<and>
     (\<forall>i < length (Public spr).
        xl ! i = solution ! i \<and> xr ! i = solution ! 0 \<and> xo ! i = solution ! 0) \<and>
     (\<forall>j < length (Constraints spr).
        xl ! (length (Public spr) + j) = solution ! L_WireID (Constraints spr ! j) \<and>
        xr ! (length (Public spr) + j) = solution ! R_WireID (Constraints spr ! j) \<and>
        xo ! (length (Public spr) + j) = solution ! O_WireID (Constraints spr ! j)) \<and>
     (\<forall>k. length (Public spr) + length (Constraints spr) \<le> k \<and>
          k < unat (Cardinality (Domain_0 pk)) \<longrightarrow>
        xl ! k = solution ! 0 \<and> xr ! k = solution ! 0 \<and> xo ! k = solution ! 0)"
proof (cases "lroWellFormed spr pk solution")
  case False
  then show ?thesis by (simp add: evaluateLROSmallDomain_closed)
next
  case True
  then have le: "length (Public spr) + length (Constraints spr) \<le> unat (Cardinality (Domain_0 pk))"
    by (simp add: lroWellFormed_def)
  have z: "length (replicate (unat (Cardinality (Domain_0 pk))) (0::'f)) = unat (Cardinality (Domain_0 pk))"
    by simp
  show ?thesis
    unfolding evaluateLROSmallDomain_closed Let_def prod.inject three_fills_iff [OF z le]
    using True by blast
qed


text \<open>
  The instance: one public input, one gate on wires 0, 1, 2, a domain of four rows and the
  solution 5, 7, 12.
\<close>

theorem evaluateLROSmallDomain_rows_witness:
  "evaluateLROSmallDomain exampleSpr examplePk [5, 7, 12 :: rat] =
      Inr ([5, 5, 5, 5], [5, 7, 5, 5], [5, 12, 5, 5]) \<and>
   lroWellFormed exampleSpr examplePk [5, 7, 12 :: rat]"
proof -
  have run: "evaluateLROSmallDomain exampleSpr examplePk [5, 7, 12 :: rat] =
      Inr ([5, 5, 5, 5], [5, 7, 5, 5], [5, 12, 5, 5])"
    by (simp add: evaluateLROSmallDomain_def exampleSpr_def examplePk_def exampleDomain_def
        makeSlice_def getIdx_def setIdx_def placeholderRow_def constraintRow_def paddingRow_def
        Let_def numeral_eq_Suc upt_rec)
  from evaluateLROSmallDomain_rows [THEN iffD1, OF run] run show ?thesis by blast
qed

section \<open>The compressor: the size check and the literal bytes\<close>

lemma andThen_Inl_iff:
  "andThen m f = Inl p \<longleftrightarrow> m = Inl p \<or> (\<exists>a. m = Inr a \<and> f a = Inl p)"
  by (cases m) (simp_all add: andThen_def)

lemma getAt_no_encode_panic [simp]: "getAt xs i \<noteq> Inl CannotEncodeSymbol"
  by (simp add: getAt_def)

lemma findBackRef_no_encode_panic [simp]: "findBackRef env c d i bt m \<noteq> Inl CannotEncodeSymbol"
  by (auto simp: findBackRef_def sliceInt_def Let_def andThen_def split: sum.splits option.splits)

lemma fillBackrefs_no_encode_panic [simp]: "fillBackrefs env c d i m st \<noteq> Inl CannotEncodeSymbol"
  by (auto simp: fillBackrefs_def andThen_Inl_iff split: prod.splits)

lemma fillBackrefs_keeps:
  "fillBackrefs env c d i m st = Inr r \<Longrightarrow> bw (snd r) = bw st \<and> pos (snd r) = pos st"
  by (auto simp: fillBackrefs_def andThen_Inr_iff split: prod.splits)

lemma writeByte_Inl_iff:
  "writeByte env w b = Inl p \<longleftrightarrow> \<not> canEncodeSymbol env b \<and> p = CannotEncodeSymbol"
  by (auto simp: writeByte_def)

lemma lookAheadSecond_no_encode_panic [simp]:
  "lookAheadSecond env c d best sv st \<noteq> Inl CannotEncodeSymbol"
  by (auto simp: lookAheadSecond_def Let_def andThen_Inl_iff writeByte_Inl_iff case_prod_beta
           split: if_splits)

lemma lookAhead_no_encode_panic:
  assumes "getAt d (pos st) = Inr di" and "canEncodeSymbol env di"
  shows "lookAhead env c d best sv st \<noteq> Inl CannotEncodeSymbol"
  using assms
  by (auto simp: lookAhead_def Let_def andThen_Inl_iff writeByte_Inl_iff case_prod_beta
           dest!: fillBackrefs_keeps split: if_splits)

lemma compressIteration_no_encode_panic:
  "compressIteration env c d st \<noteq> Inl CannotEncodeSymbol"
proof
  assume panic: "compressIteration env c d st = Inl CannotEncodeSymbol"
  then obtain di where di: "getAt d (pos st) = Inr di"
    by (auto simp: compressIteration_def Let_def andThen_Inl_iff)
  show False
  proof (cases "canEncodeSymbol env di")
    case False
    with panic di show False
      by (auto simp: compressIteration_def Let_def andThen_Inl_iff case_prod_beta split: if_splits)
  next
    case True
    from panic di True obtain r where r: "fillBackrefs env c d (pos st) (- 1) st = Inr r"
      by (auto simp: compressIteration_def Let_def andThen_Inl_iff)
    from fillBackrefs_keeps [OF r] di have "getAt d (pos (snd r)) = Inr di"
      by simp
    from lookAhead_no_encode_panic [OF this True] panic di True r show False
      by (auto simp: compressIteration_def Let_def andThen_Inl_iff writeByte_Inl_iff case_prod_beta
               split: if_splits)
  qed
qed

lemma compressIteration_Returns:
  "compressIteration env c d st = Inr (Returns out err st') \<Longrightarrow>
     out = None \<and> err = Some (BackrefNotFound (pos st))"
  by (auto simp: compressIteration_def Let_def andThen_Inr_iff case_prod_beta split: if_splits)

lemma compressLoop_no_encode_panic:
  "compressLoop fuel env c d st \<noteq> Some (Inl CannotEncodeSymbol)"
proof (induction fuel arbitrary: st)
  case 0
  show ?case by (simp add: compressLoop.simps)
next
  case (Suc fuel)
  show ?case
    using Suc.IH compressIteration_no_encode_panic [of env c d st]
    by (subst compressLoop.simps) (auto split: sum.splits iteration.splits)
qed

lemma finish_no_size_error: "finish env w \<noteq> (out, Some InputSizeError)"
  by (simp add: finish_def split: option.splits)

lemma compressLoop_no_size_error:
  "compressLoop fuel env c d st \<noteq> Some (Inr ((out, Some InputSizeError), st'))"
proof (induction fuel arbitrary: st)
  case 0
  show ?case by (simp add: compressLoop.simps finish_no_size_error)
next
  case (Suc fuel)
  show ?case
    using Suc.IH
    by (subst compressLoop.simps)
       (auto simp: finish_no_size_error dest!: compressIteration_Returns split: sum.splits iteration.splits)
qed

lemma initBackRefTypes_Inl: "initBackRefTypes env n mode = Inl p \<Longrightarrow> p = IntegerDivideByZero"
  by (auto simp: initBackRefTypes_def wordAlign_def andThen_Inl_iff split: if_splits)

lemma Compress_within_limit_state:
  assumes "length d \<le> maxInputSize env" and "Compress fuel env c d = Some (Inr (res, c'))"
  shows "inputIndex c' = Some d \<and> (\<exists>w. bw_c c' = Some w) \<and>
         dictData c' = dictData c \<and> compressionMode c' = compressionMode c"
  using assms
  by (auto simp: Compress_def Let_def split: sum.splits prod.splits option.splits)

text \<open>
  Claim C9. An input longer than \<open>maxInputSize\<close> makes \<open>Compress\<close> return a nil output and
  the size error with the compressor exactly as it was: the buffer is not emptied, no writer
  is created, nothing is written and the input index is not built, whatever the fuel, the
  environment and the compression mode. An input within the limit never gets the size
  error, and a run on it that returns has created the writer and built the index of the
  input.
\<close>

theorem Compress_input_size_check:
  "(length d > maxInputSize env \<longrightarrow>
      Compress fuel env c d = Some (Inr ((None, Some InputSizeError), c))) \<and>
   (length d \<le> maxInputSize env \<longrightarrow>
      (\<forall>out c'. Compress fuel env c d \<noteq> Some (Inr ((out, Some InputSizeError), c'))) \<and>
      (\<forall>res c'. Compress fuel env c d = Some (Inr (res, c')) \<longrightarrow>
         inputIndex c' = Some d \<and> (\<exists>w. bw_c c' = Some w)))"
proof (intro conjI impI allI)
  assume "length d > maxInputSize env"
  then show "Compress fuel env c d = Some (Inr ((None, Some InputSizeError), c))"
    by (simp add: Compress_def)
next
  fix out c'
  assume "length d \<le> maxInputSize env"
  then show "Compress fuel env c d \<noteq> Some (Inr ((out, Some InputSizeError), c'))"
    by (auto simp: Compress_def Let_def compressLoop_no_size_error
        split: sum.splits prod.splits option.splits)
next
  fix res c'
  assume "length d \<le> maxInputSize env" and "Compress fuel env c d = Some (Inr (res, c'))"
  then show "inputIndex c' = Some d" and "\<exists>w. bw_c c' = Some w"
    using Compress_within_limit_state [of d env fuel c res c'] by simp_all
qed

text \<open>
  Five bytes against a limit of four leave the fresh compressor without writer and index;
  two bytes within the limit are compressed, and the compressor then holds the writer and
  the index of the two bytes.
\<close>

theorem Compress_input_size_check_witness:
  "length [1, 2, 3, 4, 5 :: byte] > maxInputSize exampleLzssEnv \<and>
   Compress 2 exampleLzssEnv exampleCompressor [1, 2, 3, 4, 5] =
     Some (Inr ((None, Some InputSizeError), exampleCompressor)) \<and>
   bw_c exampleCompressor = None \<and> inputIndex exampleCompressor = None \<and>
   length [1, 2 :: byte] \<le> maxInputSize exampleLzssEnv \<and>
   Compress 2 exampleLzssEnv exampleCompressor [1, 2] =
     Some (Inr ((Some [1, 2], None),
       exampleCompressor\<lparr>bw_c := Some [1, 2], inputIndex := Some [1, 2]\<rparr>)) \<and>
   Compress 2 exampleLzssEnv exampleCompressor [1, 2] \<noteq>
     Some (Inr ((None, Some InputSizeError), exampleCompressor))"
proof -
  have big: "length [1, 2, 3, 4, 5 :: byte] > maxInputSize exampleLzssEnv"
    by (simp add: exampleLzssEnv_def)
  have small: "length [1, 2 :: byte] \<le> maxInputSize exampleLzssEnv"
    by (simp add: exampleLzssEnv_def)
  have fresh: "bw_c exampleCompressor = None \<and> inputIndex exampleCompressor = None"
    by (simp add: exampleCompressor_def)
  have run: "Compress 2 exampleLzssEnv exampleCompressor [1, 2] =
     Some (Inr ((Some [1, 2], None),
       exampleCompressor\<lparr>bw_c := Some [1, 2], inputIndex := Some [1, 2]\<rparr>))"
    by code_simp
  from Compress_input_size_check [of exampleLzssEnv "[1, 2, 3, 4, 5]" 2 exampleCompressor] big
  have "Compress 2 exampleLzssEnv exampleCompressor [1, 2, 3, 4, 5] =
     Some (Inr ((None, Some InputSizeError), exampleCompressor))"
    by blast
  moreover from Compress_input_size_check [of exampleLzssEnv "[1, 2]" 2 exampleCompressor] small
  have "Compress 2 exampleLzssEnv exampleCompressor [1, 2] \<noteq>
     Some (Inr ((None, Some InputSizeError), exampleCompressor))"
    by blast
  ultimately show ?thesis using big small fresh run by blast
qed

text \<open>
  Claim C10. No run of \<open>Compress\<close> ends in the panic of \<open>writeByte\<close>: every byte it passes
  to \<open>writeByte\<close> can be encoded. And an iteration that stands on a reserved symbol and
  finds no back-reference of length at least 1 there makes \<open>Compress\<close> return the error for
  that position, with nil output and with the writer as the iteration found it.
\<close>

theorem Compress_never_panics_in_writeByte:
  "Compress fuel env c d \<noteq> Some (Inl CannotEncodeSymbol) \<and>
   (pos st < int (length d) \<and> 0 \<le> pos st \<and> \<not> canEncodeSymbol env (d ! nat (pos st)) \<and>
    fillBackrefs env c d (pos st) 1 st = Inr (False, st') \<longrightarrow>
      compressLoop (Suc fuel) env c d st =
        Some (Inr ((None, Some (BackrefNotFound (pos st))), st')) \<and> bw st' = bw st)"
proof (intro conjI impI)
  show "Compress fuel env c d \<noteq> Some (Inl CannotEncodeSymbol)"
    by (auto simp: Compress_def Let_def compressLoop_no_encode_panic
        dest!: initBackRefTypes_Inl split: sum.splits prod.splits option.splits)
next
  assume h: "pos st < int (length d) \<and> 0 \<le> pos st \<and> \<not> canEncodeSymbol env (d ! nat (pos st)) \<and>
    fillBackrefs env c d (pos st) 1 st = Inr (False, st')"
  then show "compressLoop (Suc fuel) env c d st =
        Some (Inr ((None, Some (BackrefNotFound (pos st))), st'))"
    by (simp add: compressLoop.simps [of "Suc fuel"] compressIteration_def getAt_def)
  from h fillBackrefs_keeps [of env c d "pos st" 1 st "(False, st')"]
  show "bw st' = bw st" by simp
qed

text \<open>The input is the single reserved byte 255 and the search finds nothing.\<close>

theorem Compress_never_panics_in_writeByte_witness:
  "\<not> canEncodeSymbol exampleLzssEnv ([255] ! nat (pos exampleLoopState)) \<and>
   fillBackrefs exampleLzssEnv exampleCompressorInLoop [255] (pos exampleLoopState) 1 exampleLoopState
     = Inr (False, exampleLoopState) \<and>
   compressLoop (Suc 0) exampleLzssEnv exampleCompressorInLoop [255] exampleLoopState
     = Some (Inr ((None, Some (BackrefNotFound 0)), exampleLoopState)) \<and>
   Compress (Suc 0) exampleLzssEnv exampleCompressor [255]
     = Some (Inr ((None, Some (BackrefNotFound 0)), exampleCompressorInLoop))"
proof -
  have p: "pos exampleLoopState = 0"
    by (simp add: exampleLoopState_def)
  have sym: "\<not> canEncodeSymbol exampleLzssEnv ([255] ! nat (pos exampleLoopState))"
    by (simp add: p canEncodeSymbol_def exampleLzssEnv_def)
  have fb: "fillBackrefs exampleLzssEnv exampleCompressorInLoop [255] (pos exampleLoopState) 1 exampleLoopState
     = Inr (False, exampleLoopState)"
    by code_simp
  have run: "Compress (Suc 0) exampleLzssEnv exampleCompressor [255]
     = Some (Inr ((None, Some (BackrefNotFound 0)), exampleCompressorInLoop))"
    by code_simp
  from Compress_never_panics_in_writeByte
    [of 0 exampleLzssEnv exampleCompressorInLoop "[255]" exampleLoopState exampleLoopState] sym fb p
  have "compressLoop (Suc 0) exampleLzssEnv exampleCompressorInLoop [255] exampleLoopState
     = Some (Inr ((None, Some (BackrefNotFound 0)), exampleLoopState))"
    by simp
  with sym fb run show ?thesis by blast
qed

section \<open>The prover step by step\<close>

text \<open>What a step that goes on, or returns, tells about the frame it leaves.\<close>

lemma orPanic_Continues_iff:
  "orPanic m k = Continues fr \<longleftrightarrow> (\<exists>a. m = Inr a \<and> k a = Continues fr)"
  by (cases m) (simp_all add: orPanic_def)

lemma orPanic_Returned_iff:
  "orPanic m k = Returned p e fr \<longleftrightarrow> (\<exists>a. m = Inr a \<and> k a = Returned p e fr)"
  by (cases m) (simp_all add: orPanic_def)

lemma thenStep_Returned_iff:
  "thenStep m k = Returned p e fr \<longleftrightarrow>
     m = Returned p e fr \<or> (\<exists>fr0. m = Continues fr0 \<and> k fr0 = Returned p e fr)"
  by (cases m) (simp_all add: thenStep_def)

lemma thenStep_Continues_iff:
  "thenStep m k = Continues fr \<longleftrightarrow> (\<exists>fr0. m = Continues fr0 \<and> k fr0 = Continues fr)"
  by (cases m) (simp_all add: thenStep_def)

lemma Bind_None:
  "Bind env t name x = (t', None) \<Longrightarrow> fsLog t' = fsLog t @ [Bound name x]"
  by (auto simp: Bind_def split: option.splits)

lemma bindPublicData_None:
  "bindPublicData env t name vk pub = (t', None) \<Longrightarrow>
     fsLog t' = fsLog t @ [Bound name (VkFixedData vk), Bound name (PublicInputs pub)]"
  by (auto simp: bindPublicData_def split: prod.splits option.splits dest!: Bind_None)

lemma bindPoints_None:
  "bindPoints env t name ps = (t', None) \<Longrightarrow>
     fsLog t' = fsLog t @ map (\<lambda>p. Bound name (Point p)) ps"
  by (induction ps arbitrary: t) (auto split: prod.splits option.splits dest!: Bind_None)

lemma ComputeChallenge_None:
  "ComputeChallenge env t name = (t', b, None) \<Longrightarrow> fsLog t' = fsLog t @ [Computed name]"
  by (auto simp: ComputeChallenge_def split: prod.splits option.splits)

lemma deriveRandomness_None:
  "deriveRandomness env t name ps = (t', x, None) \<Longrightarrow>
     fsLog t' = fsLog t @ map (\<lambda>p. Bound name (Point p)) ps @ [Computed name]"
  by (auto simp: deriveRandomness_def split: prod.splits option.splits
      dest!: bindPoints_None ComputeChallenge_None)

lemma bindPublicData_log:
  "snd (bindPublicData env t name vk pub) = None \<Longrightarrow>
     fsLog (fst (bindPublicData env t name vk pub)) =
       fsLog t @ [Bound name (VkFixedData vk), Bound name (PublicInputs pub)]"
  using bindPublicData_None [of env t name vk pub "fst (bindPublicData env t name vk pub)"]
  by (cases "bindPublicData env t name vk pub") simp

lemma deriveRandomness_log:
  "snd (snd (deriveRandomness env t name ps)) = None \<Longrightarrow>
     fsLog (fst (deriveRandomness env t name ps)) =
       fsLog t @ map (\<lambda>p. Bound name (Point p)) ps @ [Computed name]"
  using deriveRandomness_None [of env t name ps "fst (deriveRandomness env t name ps)"]
  by (cases "deriveRandomness env t name ps") auto

lemma ComputeChallenge_log:
  "snd (snd (ComputeChallenge env t name)) = None \<Longrightarrow>
     fsLog (fst (ComputeChallenge env t name)) = fsLog t @ [Computed name]"
  using ComputeChallenge_None [of env t name "fst (ComputeChallenge env t name)"]
  by (cases "ComputeChallenge env t name") auto

lemma solveStep_Continues:
  "solveStep env spr w opt fr = Continues fr' \<Longrightarrow>
     v_fs fr' = v_fs fr \<and> v_proof fr' = v_proof fr"
  by (auto simp: case_prod_beta solveStep_def split: option.splits if_splits)

lemma lroStep_Continues:
  "lroStep env spr pk fr = Continues fr' \<Longrightarrow> v_fs fr' = v_fs fr"
  by (auto simp: case_prod_beta lroStep_def Let_def orPanic_Continues_iff split: option.splits)

lemma gammaBetaStep_Continues:
  "gammaBetaStep env spr pk w fr = Continues fr' \<Longrightarrow>
     v_proof fr' = v_proof fr \<and>
     fsLog (v_fs fr') = fsLog (v_fs fr) @
       [Bound ''gamma'' (VkFixedData (Vk pk)),
        Bound ''gamma'' (PublicInputs (take (length (Public spr)) w)),
        Bound ''gamma'' (Point (LRO (v_proof fr) ! 0)),
        Bound ''gamma'' (Point (LRO (v_proof fr) ! 1)),
        Bound ''gamma'' (Point (LRO (v_proof fr) ! 2)),
        Computed ''gamma'', Computed ''beta'']"
  by (auto simp: case_prod_beta gammaBetaStep_def orPanic_Continues_iff sliceTo_def
        bindPublicData_log deriveRandomness_log ComputeChallenge_log
      split: option.splits if_splits)

lemma zAlphaStep_Continues:
  "zAlphaStep env pk fr = Continues fr' \<Longrightarrow>
     LRO (v_proof fr') = LRO (v_proof fr) \<and> H (v_proof fr') = H (v_proof fr) \<and>
     fsLog (v_fs fr') = fsLog (v_fs fr) @
       [Bound ''alpha'' (Point (Z (v_proof fr'))), Computed ''alpha'']"
  by (auto simp: case_prod_beta zAlphaStep_def Let_def deriveRandomness_log
      split: option.splits if_splits)

lemma gateStep_Continues:
  "gateStep env spr pk w fr = Continues fr' \<Longrightarrow>
     v_fs fr' = v_fs fr \<and> v_proof fr' = v_proof fr"
  by (auto simp: case_prod_beta gateStep_def Let_def orPanic_Continues_iff split: option.splits)

lemma orderingStep_Continues:
  "orderingStep env pk fr = Continues fr' \<Longrightarrow>
     v_fs fr' = v_fs fr \<and> v_proof fr' = v_proof fr"
  by (auto simp: case_prod_beta orderingStep_def Let_def orPanic_Continues_iff split: option.splits)

lemma quotientStep_Continues:
  "quotientStep env pk fr = Continues fr' \<Longrightarrow>
     v_fs fr' = v_fs fr \<and> v_proof fr' = v_proof fr"
  by (auto simp: case_prod_beta quotientStep_def Let_def orPanic_Continues_iff split: option.splits)


lemma slice_Inr_iff:
  "slice xs lo hi = Inr ys \<longleftrightarrow> lo \<le> hi \<and> hi \<le> length xs \<and> ys = take (hi - lo) (drop lo xs)"
  by (auto simp: slice_def)

lemma sliceTo_Inr_iff: "sliceTo xs k = Inr ys \<longleftrightarrow> k \<le> length xs \<and> ys = take k xs"
  by (auto simp: sliceTo_def)

lemma commitToQuotient_None:
  "fst (commitToQuotient env h1 h2 h3 prf) = None \<Longrightarrow>
     fst (snd (commitToQuotient env h1 h2 h3 prf)) =
       prf\<lparr>H := (H prf)[2 := fst (Commit env h3), 0 := fst (Commit env h1), 1 := fst (Commit env h2)]\<rparr> \<and>
     snd (Commit env h1) = None \<and> snd (Commit env h2) = None \<and> snd (Commit env h3) = None"
  by (auto simp: commitToQuotient_def case_prod_beta split: option.splits)

lemma commitToLRO_None:
  "fst (commitToLRO env bcl bcr bco prf) = None \<Longrightarrow>
     fst (snd (commitToLRO env bcl bcr bco prf)) =
       prf\<lparr>LRO := (LRO prf)[2 := fst (Commit env bco), 0 := fst (Commit env bcl), 1 := fst (Commit env bcr)]\<rparr> \<and>
     snd (Commit env bcl) = None \<and> snd (Commit env bcr) = None \<and> snd (Commit env bco) = None"
  by (auto simp: commitToLRO_def case_prod_beta split: option.splits)

lemma zetaStep_Continues:
  assumes "zetaStep env pk fr = Continues fr'"
  shows "v_h fr' = v_h fr" 
    and "unat (chunkSize pk) \<le> unat (2 * chunkSize pk)"
    and "unat (2 * chunkSize pk) \<le> unat (3 * chunkSize pk)"
    and "unat (3 * chunkSize pk) \<le> length (Coefficients (v_h fr))"
    and "v_proof fr' = (v_proof fr)\<lparr>H := (H (v_proof fr))
          [2 := fst (Commit env (take (unat (3 * chunkSize pk) - unat (2 * chunkSize pk))
                       (drop (unat (2 * chunkSize pk)) (Coefficients (v_h fr))))),
           0 := fst (Commit env (take (unat (chunkSize pk)) (Coefficients (v_h fr)))),
           1 := fst (Commit env (take (unat (2 * chunkSize pk) - unat (chunkSize pk))
                       (drop (unat (chunkSize pk)) (Coefficients (v_h fr)))))]\<rparr>"
    and "fsLog (v_fs fr') = fsLog (v_fs fr) @
          [Bound ''zeta'' (Point (H (v_proof fr') ! 0)), Bound ''zeta'' (Point (H (v_proof fr') ! 1)),
           Bound ''zeta'' (Point (H (v_proof fr') ! 2)), Computed ''zeta'']"
    and "v_wliop fr' = v_wliop fr" and "v_wriop fr' = v_wriop fr" and "v_woiop fr' = v_woiop fr"
    and "v_wziop fr' = v_wziop fr"
    and "v_alpha fr' = v_alpha fr" and "v_beta fr' = v_beta fr" and "v_gamma fr' = v_gamma fr"
  using assms
  by (auto simp: zetaStep_def case_prod_beta orPanic_Continues_iff slice_Inr_iff sliceTo_Inr_iff
        commitToQuotient_None deriveRandomness_log
      split: option.splits)


lemma Some_eqD: "Some a = x \<Longrightarrow> x \<noteq> None"
  by auto

lemma Some_flip: "Some a = x \<Longrightarrow> \<exists>y. x = Some y"
  by auto

lemma solveStep_Returned: "solveStep env spr w opt fr = Returned p e fr' \<Longrightarrow> p = None \<and> e \<noteq> None"
  by (auto simp: solveStep_def case_prod_beta split: option.splits if_splits dest!: Some_eqD)

lemma lroStep_Returned: "lroStep env spr pk fr = Returned p e fr' \<Longrightarrow> p = None \<and> e \<noteq> None"
  by (auto simp: lroStep_def Let_def case_prod_beta orPanic_Returned_iff split: option.splits dest!: Some_eqD)

lemma gammaBetaStep_Returned:
  "gammaBetaStep env spr pk w fr = Returned p e fr' \<Longrightarrow> p = None \<and> e \<noteq> None"
  by (auto simp: gammaBetaStep_def case_prod_beta orPanic_Returned_iff split: option.splits dest!: Some_eqD)

lemma zAlphaStep_Returned:
  "zAlphaStep env pk fr = Returned p e fr' \<Longrightarrow> p = Some (v_proof fr') \<and> e \<noteq> None"
  by (auto simp: zAlphaStep_def Let_def case_prod_beta split: option.splits dest!: Some_eqD)

lemma gateStep_Returned:
  "gateStep env spr pk w fr = Returned p e fr' \<Longrightarrow> p = Some (v_proof fr') \<and> e \<noteq> None"
  by (auto simp: gateStep_def Let_def case_prod_beta orPanic_Returned_iff split: option.splits intro: Some_flip)

lemma orderingStep_Returned:
  "orderingStep env pk fr = Returned p e fr' \<Longrightarrow> p = Some (v_proof fr') \<and> e \<noteq> None"
  by (auto simp: orderingStep_def Let_def case_prod_beta orPanic_Returned_iff split: option.splits intro: Some_flip)

lemma quotientStep_Returned:
  "quotientStep env pk fr = Returned p e fr' \<Longrightarrow> p = Some (v_proof fr') \<and> e \<noteq> None"
  by (auto simp: quotientStep_def Let_def case_prod_beta orPanic_Returned_iff split: option.splits intro: Some_flip)

lemma zetaStep_Returned:
  "zetaStep env pk fr = Returned p e fr' \<Longrightarrow> p = None \<and> e \<noteq> None"
  by (auto simp: zetaStep_def case_prod_beta orPanic_Returned_iff split: option.splits intro: Some_flip)

lemma openingStep_not_Continues: "openingStep env pk fr \<noteq> Continues fr'"
  by (auto simp: openingStep_def Let_def case_prod_beta orPanic_Continues_iff split: option.splits intro: Some_flip)




lemma update_loop:
  assumes body: "\<And>i xs res. body i xs = Inr res \<longleftrightarrow>
      ok i \<and> i < length xs \<and> res = xs[i := g i (xs ! i)]"
  shows "forEach [0 ..< n] body xs = Inr res \<longleftrightarrow>
      (\<forall>i < n. ok i \<and> i < length xs) \<and>
      res = map (\<lambda>i. if i < n then g i (xs ! i) else xs ! i) [0 ..< length xs]"
proof (induction n arbitrary: res)
  case 0
  have "map (\<lambda>i. xs ! i) [0 ..< length xs] = xs"
    by (rule nth_equalityI) simp_all
  then show ?case by auto
next
  case (Suc n)
  define M where "M k = map (\<lambda>i. if i < k then g i (xs ! i) else xs ! i) [0 ..< length xs]" for k
  have lenM: "length (M k) = length xs" for k
    by (simp add: M_def)
  have nthM: "M k ! i = (if i < k then g i (xs ! i) else xs ! i)" if "i < length xs" for k i
    using that by (simp add: M_def)
  have upd: "(M n)[n := g n (M n ! n)] = M (Suc n)" if "n < length xs"
  proof (rule nth_equalityI)
    show "length ((M n)[n := g n (M n ! n)]) = length (M (Suc n))"
      by (simp add: lenM)
  next
    fix i assume "i < length ((M n)[n := g n (M n ! n)])"
    then have i: "i < length xs" by (simp add: lenM)
    show "(M n)[n := g n (M n ! n)] ! i = M (Suc n) ! i"
    proof (cases "i = n")
      case True
      with that show ?thesis by (simp add: lenM nthM)
    next
      case False
      with i show ?thesis by (auto simp: lenM nthM)
    qed
  qed
  have step: "forEach [0 ..< Suc n] body xs = andThen (forEach [0 ..< n] body xs) (body n)"
    using forEach_upt_Suc [of 0 n body] by simp
  have IH: "forEach [0 ..< n] body xs = Inr a \<longleftrightarrow> (\<forall>i < n. ok i \<and> i < length xs) \<and> a = M n" for a
    using Suc.IH [of a] by (simp add: M_def)
  have "forEach [0 ..< Suc n] body xs = Inr res \<longleftrightarrow>
      (\<forall>i < n. ok i \<and> i < length xs) \<and> ok n \<and> n < length xs \<and> res = (M n)[n := g n (M n ! n)]"
    unfolding step andThen_Inr_iff IH body by (auto simp: lenM)
  also have "\<dots> \<longleftrightarrow> (\<forall>i < Suc n. ok i \<and> i < length xs) \<and> res = M (Suc n)"
    using upd by (auto simp: less_Suc_eq)
  finally show ?case by (simp add: M_def)
qed

lemma foldCoefficient_Inr_iff:
  "foldCoefficient zp h2 h1 i xs = Inr res \<longleftrightarrow>
     (i < length h2 \<and> i < length h1) \<and> i < length xs \<and>
     res = xs[i := (xs ! i * zp + h2 ! i) * zp + h1 ! i]"
  by (auto simp: foldCoefficient_def andThen_Inr_iff getIdx_Inr_iff setIdx_Inr_iff)

lemma fold_loop:
  "forEach [0 ..< length xs] (foldCoefficient zp h2 h1) xs = Inr res \<longleftrightarrow>
     (\<forall>i < length xs. i < length h2 \<and> i < length h1) \<and>
     res = map (\<lambda>i. (xs ! i * zp + h2 ! i) * zp + h1 ! i) [0 ..< length xs]"
proof -
  have "forEach [0 ..< length xs] (foldCoefficient zp h2 h1) xs = Inr res \<longleftrightarrow>
      (\<forall>i < length xs. (i < length h2 \<and> i < length h1) \<and> i < length xs) \<and>
      res = map (\<lambda>i. if i < length xs then (xs ! i * zp + h2 ! i) * zp + h1 ! i else xs ! i)
              [0 ..< length xs]"
    by (rule update_loop) (rule foldCoefficient_Inr_iff)
  moreover have "map (\<lambda>i. if i < length xs then (xs ! i * zp + h2 ! i) * zp + h1 ! i else xs ! i)
              [0 ..< length xs] = map (\<lambda>i. (xs ! i * zp + h2 ! i) * zp + h1 ! i) [0 ..< length xs]"
    by simp
  ultimately show ?thesis by auto
qed

lemma openingStep_success:
  assumes "openingStep env pk fr = Returned (Some prf) None fr'"
  defines "zeta \<equiv> v_zeta fr"
    and "n \<equiv> unat (Cardinality (Domain_0 pk))"
    and "hc \<equiv> Coefficients (v_h fr)"
    and "zp \<equiv> v_zeta fr ^ unat (Cardinality (Domain_0 pk) + 2)"
  shows "v_fs fr' = v_fs fr" and "v_zeta fr' = zeta" and "v_h fr' = v_h fr"
    and "v_alpha fr' = v_alpha fr" and "v_beta fr' = v_beta fr" and "v_gamma fr' = v_gamma fr"
    and "v_proof fr' = prf"
    and "LRO prf = LRO (v_proof fr)" and "Z prf = Z (v_proof fr)" and "H prf = H (v_proof fr)"
    and "v_wliop fr' = ToRegular env (ToCanonical env (v_wliop fr) (Domain_1 pk))"
    and "v_wriop fr' = ToRegular env (ToCanonical env (v_wriop fr) (Domain_1 pk))"
    and "v_woiop fr' = ToRegular env (ToCanonical env (v_woiop fr) (Domain_1 pk))"
    and "v_wziop fr' = ToRegular env (ToCanonical env (v_wziop fr) (Domain_1 pk))"
    and "n \<le> length (Coefficients (P (v_wziop fr')))"
    and "ZShiftedOpening prf =
           fst (Open env (take n (Coefficients (P (v_wziop fr')))) (zeta * Generator (Vk pk)))"
    and "snd (Open env (take n (Coefficients (P (v_wziop fr')))) (zeta * Generator (Vk pk))) = None"
    and "v_bzuzeta fr' = ClaimedValue (ZShiftedOpening prf)"
    and "unat (Cardinality (Domain_0 pk) + 2) \<le> length (Coefficients (P (v_wziop fr')))"
    and "v_blindedZ fr' = take (unat (Cardinality (Domain_0 pk) + 2)) (Coefficients (P (v_wziop fr')))"
    and "computeLinearizedPolynomial env (Evaluate env (v_wliop fr') zeta)
           (Evaluate env (v_wriop fr') zeta) (Evaluate env (v_woiop fr') zeta)
           (v_alpha fr) (v_beta fr) (v_gamma fr) zeta (v_bzuzeta fr') (v_blindedZ fr') pk
         = Inr (v_linearizedPolynomialCanonical fr')"
    and "v_linearizedPolynomialDigest fr' = fst (Commit env (v_linearizedPolynomialCanonical fr'))"
    and "snd (Commit env (v_linearizedPolynomialCanonical fr')) = None"
    and "v_foldedHDigest fr' =
           ScalarMultiplication env (ScalarMultiplication env (H prf ! 2) zp + H prf ! 1) zp + H prf ! 0"
    and "unat (chunkSize pk) \<le> unat (2 * chunkSize pk)"
    and "unat (2 * chunkSize pk) \<le> unat (3 * chunkSize pk)"
    and "unat (3 * chunkSize pk) \<le> length hc"
    and "forEach [0 ..< unat (3 * chunkSize pk) - unat (2 * chunkSize pk)]
           (foldCoefficient zp
              (take (unat (2 * chunkSize pk) - unat (chunkSize pk)) (drop (unat (chunkSize pk)) hc))
              (take (unat (chunkSize pk)) hc))
           (take (unat (3 * chunkSize pk) - unat (2 * chunkSize pk)) (drop (unat (2 * chunkSize pk)) hc))
         = Inr (v_foldedH fr')"
    and "Size (v_wliop fr') \<le> length (Coefficients (P (v_wliop fr')))"
    and "Size (v_wriop fr') \<le> length (Coefficients (P (v_wriop fr')))"
    and "Size (v_woiop fr') \<le> length (Coefficients (P (v_woiop fr')))"
    and "BatchedProof prf = fst (BatchOpenSinglePoint env
            [v_foldedH fr', v_linearizedPolynomialCanonical fr',
             take (Size (v_wliop fr')) (Coefficients (P (v_wliop fr'))),
             take (Size (v_wriop fr')) (Coefficients (P (v_wriop fr'))),
             take (Size (v_woiop fr')) (Coefficients (P (v_woiop fr'))),
             S1Canonical pk, S2Canonical pk]
            [v_foldedHDigest fr', v_linearizedPolynomialDigest fr',
             LRO prf ! 0, LRO prf ! 1, LRO prf ! 2, VkS (Vk pk) ! 0, VkS (Vk pk) ! 1]
            zeta)"
    and "snd (BatchOpenSinglePoint env
            [v_foldedH fr', v_linearizedPolynomialCanonical fr',
             take (Size (v_wliop fr')) (Coefficients (P (v_wliop fr'))),
             take (Size (v_wriop fr')) (Coefficients (P (v_wriop fr'))),
             take (Size (v_woiop fr')) (Coefficients (P (v_woiop fr'))),
             S1Canonical pk, S2Canonical pk]
            [v_foldedHDigest fr', v_linearizedPolynomialDigest fr',
             LRO prf ! 0, LRO prf ! 1, LRO prf ! 2, VkS (Vk pk) ! 0, VkS (Vk pk) ! 1]
            zeta) = None"
  using assms(1) unfolding zeta_def n_def hc_def zp_def
  by (auto simp: openingStep_def Let_def case_prod_beta orPanic_Returned_iff
        sliceTo_Inr_iff slice_Inr_iff split: option.splits)

lemma lroStep_Continues_proof:
  "lroStep env spr pk fr = Continues fr' \<Longrightarrow>
     Z (v_proof fr') = Z (v_proof fr) \<and> H (v_proof fr') = H (v_proof fr) \<and>
     length (LRO (v_proof fr')) = length (LRO (v_proof fr)) \<and>
     0 \<le> sint (Cardinality (Domain_0 pk))"
  by (auto simp: case_prod_beta lroStep_def Let_def orPanic_Continues_iff commitToLRO_None
       evaluateLROSmallDomain_closed lroWellFormed_def split: option.splits)

lemma zAlphaStep_Continues_Z:
  "zAlphaStep env pk fr = Continues fr' \<Longrightarrow> v_h fr' = v_h fr"
  by (auto simp: case_prod_beta zAlphaStep_def Let_def split: option.splits)

lemma Prove_success_chain:
  assumes "Prove env spr pk w opt = Returned (Some prf) None fr"
  obtains f1 f2 f3 f4 f5 f6 f7 f8 where
    "solveStep env spr w opt emptyFrame = Continues f1"
    "lroStep env spr pk f1 = Continues f2"
    "gammaBetaStep env spr pk w f2 = Continues f3"
    "zAlphaStep env pk f3 = Continues f4"
    "gateStep env spr pk w f4 = Continues f5"
    "orderingStep env pk f5 = Continues f6"
    "quotientStep env pk f6 = Continues f7"
    "zetaStep env pk f7 = Continues f8"
    "openingStep env pk f8 = Returned (Some prf) None fr"
proof -
  from assms show thesis
    unfolding Prove_def thenStep_Returned_iff thenStep_Continues_iff
    by (elim disjE exE conjE)
       (auto dest!: solveStep_Returned lroStep_Returned gammaBetaStep_Returned zAlphaStep_Returned
          gateStep_Returned orderingStep_Returned quotientStep_Returned zetaStep_Returned
        intro: that)
qed


lemma emptyFrame_fs: "fsLog (v_fs emptyFrame) = []"
  by (simp add: emptyFrame_def NewTranscript_def)

lemma unat_double_no_wrap:
  fixes c :: "64 word"
  assumes "unat c \<le> unat (2 * c)"
  shows "unat (2 * c) = 2 * unat c"
proof -
  have "unat c < 2 ^ LENGTH(64)"
    by (rule unsigned_less)
  then have u: "unat c < 2 ^ 64"
    by simp
  have eq: "unat (2 * c) = (2 * unat c) mod 2 ^ 64"
    by (simp add: unat_word_ariths)
  show ?thesis
  proof (cases "2 * unat c < 2 ^ 64")
    case True
    then show ?thesis using eq by simp
  next
    case False
    then have "(2 * unat c) mod 2 ^ 64 = 2 * unat c - 2 ^ 64"
      using u by (simp add: mod_if)
    with eq assms u show ?thesis by simp
  qed
qed

lemma unat_triple_no_wrap:
  fixes c :: "64 word"
  assumes "unat (2 * c) = 2 * unat c" and "unat (2 * c) \<le> unat (3 * c)"
  shows "unat (3 * c) = 3 * unat c"
proof -
  have "unat (2 * c) < 2 ^ LENGTH(64)"
    by (rule unsigned_less)
  then have u2: "2 * unat c < 2 ^ 64"
    using assms(1) by simp
  have eq: "unat (3 * c) = (3 * unat c) mod 2 ^ 64"
    by (simp add: unat_word_ariths)
  show ?thesis
  proof (cases "3 * unat c < 2 ^ 64")
    case True
    then show ?thesis using eq by simp
  next
    case False
    then have "(3 * unat c) mod 2 ^ 64 = 3 * unat c - 2 ^ 64"
      using u2 by (simp add: mod_if)
    with eq assms u2 show ?thesis by simp
  qed
qed

lemma unat_plus2_nonneg:
  fixes c :: "64 word"
  assumes "0 \<le> sint c"
  shows "unat (c + 2) = unat c + 2"
proof -
  have "nat (sint c) = unat c"
    using assms by (rule nat_sint_nonneg)
  moreover have "sint c < 2 ^ 63"
    using sint_lt [of c] by simp
  then have "nat (sint c) < 2 ^ 63"
    using assms by (simp add: nat_less_iff)
  ultimately have "unat c < 2 ^ 63"
    by simp
  then have "unat c + 2 < 2 ^ 64" by simp
  then show ?thesis
    by (simp add: unat_word_ariths)
qed


lemma take_chunks:
  "take m hc @ take m (drop m hc) @ take m (drop (2 * m) hc) = take (3 * m) hc"
proof -
  have "take (3 * m) hc = take (m + (m + m)) hc" by (simp add: numeral_3_eq_3)
  also have "\<dots> = take m hc @ take (m + m) (drop m hc)"
    by (simp only: take_add)
  also have "take (m + m) (drop m hc) = take m (drop m hc) @ take m (drop m (drop m hc))"
    by (simp only: take_add)
  finally show ?thesis by (simp add: mult_2)
qed

lemma fold_algebra:
  fixes x y w z :: "'f::field"
  shows "(x * z ^ m + y) * z ^ m + w = w + z ^ m * y + z ^ (2 * m) * x"
  by (simp add: algebra_simps power_mult power2_eq_square mult_2 power_add)

text \<open>The run of the small instance.\<close>

lemma exampleLRO:
  "evaluateLROSmallDomain exampleSpr examplePk [5, 7, 12 :: rat] =
      Inr ([5, 5, 5, 5], [5, 7, 5, 5], [5, 12, 5, 5])"
  by (simp add: evaluateLROSmallDomain_def exampleSpr_def examplePk_def exampleDomain_def
        makeSlice_def getIdx_def setIdx_def placeholderRow_def constraintRow_def paddingRow_def
        Let_def numeral_eq_Suc upt_rec)

lemma exampleRun:
  "\<exists>prf fr. Prove exampleEnv exampleSpr examplePk [5, 7] \<lparr>Force = False\<rparr> = Returned (Some prf) None fr \<and>
     Coefficients (v_h fr) = [1, 2, 0, 0, 0, 0, 3, 0, 1, 0, 0, 0, 0, 0, 0, 5, 0, 0] \<and>
     Coefficients (P (v_wziop fr)) = [1, 0, 0, 0, 0, 0] \<and>
     v_zeta fr = 12"
  apply (simp add: Prove_def thenStep_def solveStep_def exampleEnv_def)
  apply (simp add: lroStep_def orPanic_def exampleLRO commitToLRO_def exampleEnv_def Let_def)
  apply (simp add: gammaBetaStep_def orPanic_def sliceTo_def bindPublicData_def deriveRandomness_def
      Bind_def ComputeChallenge_def exampleEnv_def exampleSpr_def emptyProof_def emptyFrame_def NewTranscript_def)
  apply (simp add: zAlphaStep_def deriveRandomness_def Bind_def ComputeChallenge_def exampleEnv_def Let_def canReg_def)
  apply (simp add: gateStep_def orPanic_def qkCompleted_def makeSliceU64_def sliceTo_def sliceFrom_def copySlice_def
      exampleEnv_def exampleSpr_def examplePk_def exampleDomain_def Let_def canReg_def)
  apply (simp add: orderingStep_def orPanic_def makeSliceU64_def setIdx_def
      exampleEnv_def exampleSpr_def examplePk_def exampleDomain_def Let_def canReg_def)
  apply (simp add: quotientStep_def orPanic_def makeSliceU64_def setIdx_def
      exampleEnv_def exampleSpr_def examplePk_def exampleDomain_def Let_def canReg_def lagReg_def)
  apply (simp add: zetaStep_def orPanic_def slice_def sliceTo_def chunkSize_def commitToQuotient_def
      deriveRandomness_def Bind_def ComputeChallenge_def
      exampleEnv_def exampleSpr_def examplePk_def exampleDomain_def Let_def)
  apply (simp add: openingStep_def orPanic_def slice_def sliceTo_def chunkSize_def
      computeLinearizedPolynomial_def linPolCoefficient_def foldCoefficient_def frExp_def
      getIdx_def setIdx_def andThen_def upt_conv_Cons horner_def
      exampleEnv_def exampleSpr_def examplePk_def exampleDomain_def Let_def canReg_def)
  done

lemma exampleEnv_module:
  "(\<forall>g h s. ScalarMultiplication exampleEnv (g + h) s =
               ScalarMultiplication exampleEnv g s + ScalarMultiplication exampleEnv h s) \<and>
   (\<forall>g s t. ScalarMultiplication exampleEnv (ScalarMultiplication exampleEnv g s) t =
               ScalarMultiplication exampleEnv g (s * t))"
  by (simp add: exampleEnv_def algebra_simps)

section \<open>The prover: challenges and quotient chunks\<close>

text \<open>
  Claim C1. The transcript is created for the challenges gamma, beta, alpha, zeta in that
  order, and in every successful run of \<open>Prove\<close> its log is exactly this: the verification
  key's fixed data, the public inputs and the three wire commitments are absorbed for
  gamma, in that order; gamma is computed; beta is computed next with nothing absorbed in
  between; the commitment to Z is absorbed and alpha computed; the three quotient-piece
  commitments are absorbed and zeta computed.
\<close>

theorem Prove_challenge_order:
  assumes "Prove env spr pk fullWitness opt = Returned (Some prf) None fr"
  shows "challenges (v_fs emptyFrame :: ('f::field, 'g::ab_group_add) Transcript)
           = [''gamma'', ''beta'', ''alpha'', ''zeta''] \<and>
         fsLog (v_fs fr) =
           [Bound ''gamma'' (VkFixedData (Vk pk)),
            Bound ''gamma'' (PublicInputs (take (length (Public spr)) fullWitness)),
            Bound ''gamma'' (Point (LRO prf ! 0)),
            Bound ''gamma'' (Point (LRO prf ! 1)),
            Bound ''gamma'' (Point (LRO prf ! 2)),
            Computed ''gamma'',
            Computed ''beta'',
            Bound ''alpha'' (Point (Z prf)),
            Computed ''alpha'',
            Bound ''zeta'' (Point (H prf ! 0)),
            Bound ''zeta'' (Point (H prf ! 1)),
            Bound ''zeta'' (Point (H prf ! 2)),
            Computed ''zeta'']"
proof -
  from assms obtain f1 f2 f3 f4 f5 f6 f7 f8 where
    s1: "solveStep env spr fullWitness opt emptyFrame = Continues f1" and
    s2: "lroStep env spr pk f1 = Continues f2" and
    s3: "gammaBetaStep env spr pk fullWitness f2 = Continues f3" and
    s4: "zAlphaStep env pk f3 = Continues f4" and
    s5: "gateStep env spr pk fullWitness f4 = Continues f5" and
    s6: "orderingStep env pk f5 = Continues f6" and
    s7: "quotientStep env pk f6 = Continues f7" and
    s8: "zetaStep env pk f7 = Continues f8" and
    s9: "openingStep env pk f8 = Returned (Some prf) None fr"
    by (rule Prove_success_chain)
  have l2: "fsLog (v_fs f2) = []"
    using solveStep_Continues [OF s1] lroStep_Continues [OF s2] by (simp add: emptyFrame_fs)
  have p8: "LRO (v_proof f8) = LRO (v_proof f2)" "Z (v_proof f8) = Z (v_proof f4)"
    using gammaBetaStep_Continues [OF s3] zAlphaStep_Continues [OF s4] gateStep_Continues [OF s5]
      orderingStep_Continues [OF s6] quotientStep_Continues [OF s7] zetaStep_Continues(5) [OF s8]
    by simp_all
  have p9: "LRO prf = LRO (v_proof f8)" "Z prf = Z (v_proof f8)" "H prf = H (v_proof f8)"
    using openingStep_success(8,9,10) [OF s9] by simp_all
  have "fsLog (v_fs fr) = fsLog (v_fs f8)"
    using openingStep_success(1) [OF s9] by simp
  also have "\<dots> = fsLog (v_fs f7) @
          [Bound ''zeta'' (Point (H prf ! 0)), Bound ''zeta'' (Point (H prf ! 1)),
           Bound ''zeta'' (Point (H prf ! 2)), Computed ''zeta'']"
    using zetaStep_Continues(6) [OF s8] p9 by simp
  also have "fsLog (v_fs f7) = fsLog (v_fs f4)"
    using gateStep_Continues [OF s5] orderingStep_Continues [OF s6] quotientStep_Continues [OF s7]
    by simp
  also have "\<dots> = fsLog (v_fs f3) @ [Bound ''alpha'' (Point (Z prf)), Computed ''alpha'']"
    using zAlphaStep_Continues [OF s4] p8 p9 by simp
  also have "fsLog (v_fs f3) =
       [Bound ''gamma'' (VkFixedData (Vk pk)),
        Bound ''gamma'' (PublicInputs (take (length (Public spr)) fullWitness)),
        Bound ''gamma'' (Point (LRO prf ! 0)),
        Bound ''gamma'' (Point (LRO prf ! 1)),
        Bound ''gamma'' (Point (LRO prf ! 2)),
        Computed ''gamma'', Computed ''beta'']"
    using gammaBetaStep_Continues [OF s3] l2 p8 p9 by simp
  finally have "fsLog (v_fs fr) =
           [Bound ''gamma'' (VkFixedData (Vk pk)),
            Bound ''gamma'' (PublicInputs (take (length (Public spr)) fullWitness)),
            Bound ''gamma'' (Point (LRO prf ! 0)),
            Bound ''gamma'' (Point (LRO prf ! 1)),
            Bound ''gamma'' (Point (LRO prf ! 2)),
            Computed ''gamma'',
            Computed ''beta'',
            Bound ''alpha'' (Point (Z prf)),
            Computed ''alpha'',
            Bound ''zeta'' (Point (H prf ! 0)),
            Bound ''zeta'' (Point (H prf ! 1)),
            Bound ''zeta'' (Point (H prf ! 2)),
            Computed ''zeta'']"
    by simp
  then show ?thesis
    by (simp add: emptyFrame_def NewTranscript_def)
qed

text \<open>The successful run of the small instance and its log.\<close>

theorem Prove_challenge_order_witness:
  "\<exists>prf fr. Prove exampleEnv exampleSpr examplePk [5, 7] \<lparr>Force = False\<rparr> = Returned (Some prf) None fr \<and>
     fsLog (v_fs fr) =
           [Bound ''gamma'' (VkFixedData (Vk examplePk)),
            Bound ''gamma'' (PublicInputs [5]),
            Bound ''gamma'' (Point (LRO prf ! 0)),
            Bound ''gamma'' (Point (LRO prf ! 1)),
            Bound ''gamma'' (Point (LRO prf ! 2)),
            Computed ''gamma'',
            Computed ''beta'',
            Bound ''alpha'' (Point (Z prf)),
            Computed ''alpha'',
            Bound ''zeta'' (Point (H prf ! 0)),
            Bound ''zeta'' (Point (H prf ! 1)),
            Bound ''zeta'' (Point (H prf ! 2)),
            Computed ''zeta'']"
proof -
  from exampleRun obtain pf fr where
    run: "Prove exampleEnv exampleSpr examplePk [5, 7] \<lparr>Force = False\<rparr> = Returned (Some pf) None fr"
    by blast
  from Prove_challenge_order [OF run, THEN conjunct2] have "fsLog (v_fs fr) =
           [Bound ''gamma'' (VkFixedData (Vk examplePk)),
            Bound ''gamma'' (PublicInputs [5]),
            Bound ''gamma'' (Point (LRO pf ! 0)),
            Bound ''gamma'' (Point (LRO pf ! 1)),
            Bound ''gamma'' (Point (LRO pf ! 2)),
            Computed ''gamma'',
            Computed ''beta'',
            Bound ''alpha'' (Point (Z pf)),
            Computed ''alpha'',
            Bound ''zeta'' (Point (H pf ! 0)),
            Bound ''zeta'' (Point (H pf ! 1)),
            Bound ''zeta'' (Point (H pf ! 2)),
            Computed ''zeta'']"
    by (simp add: exampleSpr_def)
  with run show ?thesis by blast
qed

text \<open>
  Claim C2. In every successful run, with \<open>m\<close> the cardinality of the small domain plus 2,
  the quotient has at least \<open>3m\<close> coefficients, the three committed pieces are the
  coefficients \<open>[0, m)\<close>, \<open>[m, 2m)\<close> and \<open>[2m, 3m)\<close> (together the first \<open>3m\<close> coefficients, each
  piece of length \<open>m\<close>), the folded vector is \<open>h1 + zeta^m h2 + zeta^(2m) h3\<close> coefficient by
  coefficient, and, the scalar multiplication being an action of the field on the group of
  commitments, the folded digest is the same combination of the three commitments.
\<close>

theorem Prove_quotient_chunks:
  fixes env :: "('f::field, 'g::ab_group_add) proverEnv"
  assumes run: "Prove env spr pk fullWitness opt = Returned (Some prf) None fr"
  defines "m \<equiv> unat (Cardinality (Domain_0 pk)) + 2"
    and "hc \<equiv> Coefficients (v_h fr)"
    and "zeta \<equiv> v_zeta fr"
  shows "3 * m \<le> length hc \<and>
    H prf = [fst (Commit env (take m hc)),
             fst (Commit env (take m (drop m hc))),
             fst (Commit env (take m (drop (2 * m) hc)))] \<and>
    take m hc @ take m (drop m hc) @ take m (drop (2 * m) hc) = take (3 * m) hc \<and>
    v_foldedH fr =
      map (\<lambda>i. hc ! i + zeta ^ m * hc ! (m + i) + zeta ^ (2 * m) * hc ! (2 * m + i)) [0 ..< m] \<and>
    ((\<forall>g h s. ScalarMultiplication env (g + h) s =
               ScalarMultiplication env g s + ScalarMultiplication env h s) \<and>
     (\<forall>g s t. ScalarMultiplication env (ScalarMultiplication env g s) t =
               ScalarMultiplication env g (s * t)) \<longrightarrow>
     v_foldedHDigest fr =
       H prf ! 0 + ScalarMultiplication env (H prf ! 1) (zeta ^ m)
                 + ScalarMultiplication env (H prf ! 2) (zeta ^ (2 * m)))"
proof -
  from run obtain f1 f2 f3 f4 f5 f6 f7 f8 where
    s1: "solveStep env spr fullWitness opt emptyFrame = Continues f1" and
    s2: "lroStep env spr pk f1 = Continues f2" and
    s3: "gammaBetaStep env spr pk fullWitness f2 = Continues f3" and
    s4: "zAlphaStep env pk f3 = Continues f4" and
    s5: "gateStep env spr pk fullWitness f4 = Continues f5" and
    s6: "orderingStep env pk f5 = Continues f6" and
    s7: "quotientStep env pk f6 = Continues f7" and
    s8: "zetaStep env pk f7 = Continues f8" and
    s9: "openingStep env pk f8 = Returned (Some prf) None fr"
    by (rule Prove_success_chain)
  note z = zetaStep_Continues [OF s8]
  note o = openingStep_success [OF s9]
  have card: "0 \<le> sint (Cardinality (Domain_0 pk))"
    using lroStep_Continues_proof [OF s2] by simp
  have cs: "unat (chunkSize pk) = m"
    using unat_plus2_nonneg [OF card] by (simp add: chunkSize_def m_def)
  have cs2: "unat (2 * chunkSize pk) = 2 * m"
    using unat_double_no_wrap [OF z(2)] cs by simp
  have cs3: "unat (3 * chunkSize pk) = 3 * m"
    using unat_triple_no_wrap [OF _ z(3)] unat_double_no_wrap [OF z(2)] cs by simp
  have zp: "v_zeta f8 ^ unat (Cardinality (Domain_0 pk) + 2) = zeta ^ m"
    using o(2) unat_plus2_nonneg [OF card] by (simp add: zeta_def m_def)
  have hc: "Coefficients (v_h f7) = hc" "Coefficients (v_h f8) = hc"
    using z(1) o(3) by (simp_all add: hc_def)
  have len: "3 * m \<le> length hc"
    using z(4) cs3 hc by simp
  have H0: "H (v_proof f7) = [0, 0, 0]"
    using solveStep_Continues [OF s1] lroStep_Continues_proof [OF s2] gammaBetaStep_Continues [OF s3]
      zAlphaStep_Continues [OF s4] gateStep_Continues [OF s5] orderingStep_Continues [OF s6]
      quotientStep_Continues [OF s7]
    by (simp add: emptyFrame_def emptyProof_def)
  have Hprf: "H prf = [fst (Commit env (take m hc)),
             fst (Commit env (take m (drop m hc))),
             fst (Commit env (take m (drop (2 * m) hc)))]"
    using o(10) z(5) H0 hc cs cs2 cs3 by simp
  have folded: "forEach [0 ..< m] (foldCoefficient (zeta ^ m) (take m (drop m hc)) (take m hc))
                  (take m (drop (2 * m) hc)) = Inr (v_foldedH fr)"
    using o(28) hc cs cs2 cs3 zp by simp
  have l3: "length (take m (drop (2 * m) hc)) = m"
    using len by simp
  have "v_foldedH fr =
      map (\<lambda>i. (take m (drop (2 * m) hc) ! i * zeta ^ m + take m (drop m hc) ! i) * zeta ^ m
                 + take m hc ! i) [0 ..< m]"
    using folded fold_loop [of "take m (drop (2 * m) hc)" "zeta ^ m" "take m (drop m hc)" "take m hc"
        "v_foldedH fr"] l3 by simp
  also have "\<dots> = map (\<lambda>i. hc ! i + zeta ^ m * hc ! (m + i) + zeta ^ (2 * m) * hc ! (2 * m + i)) [0 ..< m]"
    using len by (intro map_cong refl) (simp add: fold_algebra)
  finally have foldedH: "v_foldedH fr =
      map (\<lambda>i. hc ! i + zeta ^ m * hc ! (m + i) + zeta ^ (2 * m) * hc ! (2 * m + i)) [0 ..< m]" .
  have digest: "v_foldedHDigest fr =
       H prf ! 0 + ScalarMultiplication env (H prf ! 1) (zeta ^ m)
                 + ScalarMultiplication env (H prf ! 2) (zeta ^ (2 * m))"
    if lin: "\<forall>g h s. ScalarMultiplication env (g + h) s =
               ScalarMultiplication env g s + ScalarMultiplication env h s"
      and assoc: "\<forall>g s t. ScalarMultiplication env (ScalarMultiplication env g s) t =
               ScalarMultiplication env g (s * t)"
  proof -
    have "v_foldedHDigest fr =
        ScalarMultiplication env (ScalarMultiplication env (H prf ! 2) (zeta ^ m) + H prf ! 1) (zeta ^ m)
        + H prf ! 0"
      using o(24) zp by simp
    also have "\<dots> = ScalarMultiplication env (H prf ! 2) (zeta ^ m * zeta ^ m)
        + ScalarMultiplication env (H prf ! 1) (zeta ^ m) + H prf ! 0"
      using lin assoc by simp
    also have "zeta ^ m * zeta ^ m = zeta ^ (2 * m)"
      by (simp add: mult_2 power_add)
    finally show ?thesis by (simp add: add.commute add.left_commute)
  qed
  from len Hprf foldedH digest show ?thesis
    by (simp add: take_chunks)
qed

text \<open>The same run: cardinality 4, pieces of length 6.\<close>

theorem Prove_quotient_chunks_witness:
  "\<exists>prf fr. Prove exampleEnv exampleSpr examplePk [5, 7] \<lparr>Force = False\<rparr> = Returned (Some prf) None fr \<and>
     Coefficients (v_h fr) = [1, 2, 0, 0, 0, 0, 3, 0, 1, 0, 0, 0, 0, 0, 0, 5, 0, 0] \<and>
     H prf = [3, 4, 5] \<and>
     v_foldedH fr = [1 + v_zeta fr ^ 6 * 3, 2, v_zeta fr ^ 6, v_zeta fr ^ 12 * 5, 0, 0] \<and>
     v_foldedHDigest fr = 3 + 4 * v_zeta fr ^ 6 + 5 * v_zeta fr ^ 12"
proof -
  from exampleRun obtain pf fr where
    run: "Prove exampleEnv exampleSpr examplePk [5, 7] \<lparr>Force = False\<rparr> = Returned (Some pf) None fr"
    and hc: "Coefficients (v_h fr) = [1, 2, 0, 0, 0, 0, 3, 0, 1, 0, 0, 0, 0, 0, 0, 5, 0, 0]"
    by blast
  have m: "unat (Cardinality (Domain_0 examplePk)) + 2 = 6"
    by (simp add: examplePk_def exampleDomain_def)
  note chunks = Prove_quotient_chunks [OF run, unfolded m hc]
  from chunks have H: "H pf = [3, 4, 5]"
    by (simp add: exampleEnv_def)
  from chunks have folded: "v_foldedH fr = [1 + v_zeta fr ^ 6 * 3, 2, v_zeta fr ^ 6, v_zeta fr ^ 12 * 5, 0, 0]"
    by (simp add: upt_conv_Cons)
  from chunks exampleEnv_module H
  have "v_foldedHDigest fr = 3 + 4 * v_zeta fr ^ 6 + 5 * v_zeta fr ^ 12"
    by (simp add: exampleEnv_def)
  with run hc H folded show ?thesis by blast
qed

section \<open>The prover as a list of steps\<close>

text \<open>
  \<open>Prove\<close> is the run of its nine steps, and a run of steps returns exactly what its first
  returning step returns.
\<close>

lemma thenStep_Continues [simp]: "thenStep (Continues f) k = k f"
  by (simp add: thenStep_def)




lemma Prove_after_solve:
  "solveStep env spr w opt emptyFrame = Continues f \<Longrightarrow>
     Prove env spr pk w opt = runSteps (tl (proveSteps env spr pk w opt)) (Continues f)"
  by (simp add: Prove_def runSteps_def proveSteps_def)


text \<open>The loop that fills the unsolved tail of the solution, in closed form.\<close>

lemma fillForced_upt:
  "a + n \<le> length sol \<Longrightarrow>
     fillForced [a ..< a + n] r sol = take a sol @ map (\<lambda>k. 2 ^ k * r) [0 ..< n] @ drop (a + n) sol"
proof (induction n arbitrary: a r sol)
  case 0
  then show ?case by simp
next
  case (Suc n)
  have "a < a + Suc n" by simp
  then have "[a ..< a + Suc n] = a # [Suc a ..< a + Suc n]"
    by (rule upt_conv_Cons)
  moreover have "a + Suc n = Suc a + n" by simp
  ultimately have range: "[a ..< a + Suc n] = a # [Suc a ..< Suc a + n]"
    by (simp only:)
  have a: "a < length sol" using Suc.prems by simp
  have "fillForced [a ..< a + Suc n] r sol = fillForced [Suc a ..< Suc a + n] (r + r) (sol[a := r])"
    by (simp only: range fillForced.simps)
  also have "\<dots> = take (Suc a) (sol[a := r]) @ map (\<lambda>k. 2 ^ k * (r + r)) [0 ..< n]
                  @ drop (Suc a + n) (sol[a := r])"
    using Suc.prems by (intro Suc.IH) simp
  also have "take (Suc a) (sol[a := r]) = take a sol @ [r]"
    using a by (simp add: take_Suc_conv_app_nth)
  also have "drop (Suc a + n) (sol[a := r]) = drop (a + Suc n) sol"
    by simp
  also have "map (\<lambda>k. 2 ^ k * (r + r)) [0 ..< n] = map (\<lambda>k. 2 ^ Suc k * r) [0 ..< n]"
    by (simp add: algebra_simps)
  finally show ?case
    by (simp add: map_upt_Suc del: upt_Suc)
qed

lemma fillForced_tail:
  "fillForced [a ..< length sol] r sol =
     (if a \<le> length sol then take a sol @ map (\<lambda>k. 2 ^ k * r) [0 ..< length sol - a] else sol)"
proof (cases "a \<le> length sol")
  case True
  then have "fillForced [a ..< a + (length sol - a)] r sol =
      take a sol @ map (\<lambda>k. 2 ^ k * r) [0 ..< length sol - a] @ drop (a + (length sol - a)) sol"
    by (intro fillForced_upt) simp
  with True show ?thesis by simp
next
  case False
  then show ?thesis by simp
qed


section \<open>The openings\<close>



text \<open>
  Claim C5. In every successful run of \<open>Prove\<close>, the proof's \<open>BatchedProof\<close> is the result of
  the one call of \<open>BatchOpenSinglePoint\<close> at the point zeta on the seven polynomials foldedH,
  the linearized polynomial, l, r, o (each cut to its wrapped size), S1 and S2, in that
  order, against the seven digests in the same order: the folded digest of H, the digest of
  the linearized polynomial (its commitment), the three wire commitments of the proof, and
  the first two permutation digests of the verifying key.
\<close>

theorem Prove_batched_opening:
  fixes env :: "('f::field, 'g::ab_group_add) proverEnv"
  assumes run: "Prove env spr pk fullWitness opt = Returned (Some prf) None fr"
  defines "zeta \<equiv> v_zeta fr"
  shows "Size (v_wliop fr) \<le> length (Coefficients (P (v_wliop fr))) \<and>
    Size (v_wriop fr) \<le> length (Coefficients (P (v_wriop fr))) \<and>
    Size (v_woiop fr) \<le> length (Coefficients (P (v_woiop fr))) \<and>
    BatchOpenSinglePoint env
      [v_foldedH fr,
       v_linearizedPolynomialCanonical fr,
       take (Size (v_wliop fr)) (Coefficients (P (v_wliop fr))),
       take (Size (v_wriop fr)) (Coefficients (P (v_wriop fr))),
       take (Size (v_woiop fr)) (Coefficients (P (v_woiop fr))),
       S1Canonical pk,
       S2Canonical pk]
      [v_foldedHDigest fr,
       v_linearizedPolynomialDigest fr,
       LRO prf ! 0, LRO prf ! 1, LRO prf ! 2,
       VkS (Vk pk) ! 0, VkS (Vk pk) ! 1]
      zeta
    = (BatchedProof prf, None) \<and>
    Commit env (v_linearizedPolynomialCanonical fr) = (v_linearizedPolynomialDigest fr, None) \<and>
    v_foldedHDigest fr =
      ScalarMultiplication env
        (ScalarMultiplication env (H prf ! 2) (zeta ^ unat (Cardinality (Domain_0 pk) + 2)) + H prf ! 1)
        (zeta ^ unat (Cardinality (Domain_0 pk) + 2))
      + H prf ! 0"
proof -
  from run obtain f1 f2 f3 f4 f5 f6 f7 f8 where
    s9: "openingStep env pk f8 = Returned (Some prf) None fr"
    by (rule Prove_success_chain)
  note o = openingStep_success [OF s9]
  from o(2,22,23,24,29,30,31,32,33) show ?thesis
    by (simp add: zeta_def prod_eq_iff)
qed

text \<open>
  The same run, where the aggregate of a batch is the sum of its digests and the claimed
  values are the evaluations by Horner's rule.
\<close>

theorem Prove_batched_opening_witness:
  "\<exists>prf fr. Prove exampleEnv exampleSpr examplePk [5, 7] \<lparr>Force = False\<rparr> = Returned (Some prf) None fr \<and>
     BatchH (BatchedProof prf) =
       v_foldedHDigest fr + v_linearizedPolynomialDigest fr + LRO prf ! 0 + LRO prf ! 1 + LRO prf ! 2 + 1 + 2 \<and>
     length (ClaimedValues (BatchedProof prf)) = 7 \<and>
     ClaimedValues (BatchedProof prf) ! 5 = 1 \<and>
     ClaimedValues (BatchedProof prf) ! 6 = 2 \<and>
     v_linearizedPolynomialDigest fr = sum_list (v_linearizedPolynomialCanonical fr)"
proof -
  from exampleRun obtain pf fr where
    run: "Prove exampleEnv exampleSpr examplePk [5, 7] \<lparr>Force = False\<rparr> = Returned (Some pf) None fr" and
    zeta: "v_zeta fr = 12"
    by blast
  have s: "S1Canonical examplePk = [1, 0, 0, 0]" "S2Canonical examplePk = [2, 0, 0, 0]"
      "VkS (Vk examplePk) = [1, 2, 3]"
    by (simp_all add: examplePk_def)
  have b: "\<And>ps ds z. BatchOpenSinglePoint exampleEnv ps ds z =
      (\<lparr>BatchH = sum_list ds, ClaimedValues = map (\<lambda>p. horner p z) ps\<rparr>, None)"
    by (simp add: exampleEnv_def)
  have c: "\<And>cs. Commit exampleEnv cs = (sum_list cs, None)"
    by (simp add: exampleEnv_def)
  note batched = Prove_batched_opening [OF run, unfolded zeta s b c]
  from batched [THEN conjunct2, THEN conjunct2, THEN conjunct2, THEN conjunct1, symmetric]
  have bp: "BatchedProof pf =
      \<lparr>BatchH = v_foldedHDigest fr + v_linearizedPolynomialDigest fr + LRO pf ! 0 + LRO pf ! 1 + LRO pf ! 2 + 1 + 2,
       ClaimedValues = map (\<lambda>p. horner p 12)
         [v_foldedH fr, v_linearizedPolynomialCanonical fr,
          take (Size (v_wliop fr)) (Coefficients (P (v_wliop fr))),
          take (Size (v_wriop fr)) (Coefficients (P (v_wriop fr))),
          take (Size (v_woiop fr)) (Coefficients (P (v_woiop fr))),
          [1, 0, 0, 0], [2, 0, 0, 0]]\<rparr>"
    by (simp add: algebra_simps)
  from batched [THEN conjunct2, THEN conjunct2, THEN conjunct2, THEN conjunct2, THEN conjunct1, symmetric]
  have dg: "v_linearizedPolynomialDigest fr = sum_list (v_linearizedPolynomialCanonical fr)"
    by simp
  have "BatchH (BatchedProof pf) =
       v_foldedHDigest fr + v_linearizedPolynomialDigest fr + LRO pf ! 0 + LRO pf ! 1 + LRO pf ! 2 + 1 + 2 \<and>
     length (ClaimedValues (BatchedProof pf)) = 7 \<and>
     ClaimedValues (BatchedProof pf) ! 5 = 1 \<and>
     ClaimedValues (BatchedProof pf) ! 6 = 2"
    unfolding bp by (simp add: horner_def)
  with run dg show ?thesis by blast
qed

section \<open>The error paths\<close>




text \<open>
  Claim C7 as it is stated does not hold. The placeholder is one random value, doubled from
  one position to the next; when the value drawn is 0 the two unsolved wires of the small
  instance are both filled with 0.
\<close>

theorem Prove_forced_tail_not_distinct:
  "solveStep exampleEnvUnsolved exampleSpr [5, 7] \<lparr>Force = True\<rparr> emptyFrame =
     Continues (emptyFrame\<lparr>v_solution := [5, 7, 0, 0]\<rparr>) \<and>
   \<not> distinct (drop (length (Public exampleSpr) + length (Secret exampleSpr)) [5, 7, 0, 0 :: rat])"
  by (simp add: solveStep_def exampleEnvUnsolved_def exampleEnv_def exampleSpr_def upt_conv_Cons)

text \<open>
  Claim C7, amended. When \<open>Solve\<close> fails: without the force flag \<open>Prove\<close> returns no proof and
  that error; with the force flag \<open>Prove\<close> goes on to its remaining steps with a solution of
  the same length, unchanged before position \<open>publicCount + secretCount\<close>, and holding
  \<open>2^k * r\<close> at the \<open>k\<close>-th position from there on, \<open>r\<close> being the value drawn. These values
  are distinct across positions exactly when \<open>k \<mapsto> 2^k * r\<close> is injective on the offsets of
  the tail.
\<close>

theorem Prove_solve_failure:
  fixes env :: "('f::field, 'g::ab_group_add) proverEnv"
  assumes fail: "Solve env spr fullWitness opt = (solution, Some err)"
  defines "a \<equiv> length (Public spr) + length (Secret spr)"
    and "r \<equiv> SetRandom env"
  defines "forced \<equiv> (if a \<le> length solution
                      then take a solution @ map (\<lambda>k. 2 ^ k * r) [0 ..< length solution - a]
                      else solution)"
  shows "(\<not> Force opt \<longrightarrow>
            Prove env spr pk fullWitness opt =
              Returned None (Some err) (emptyFrame\<lparr>v_solution := solution\<rparr>)) \<and>
         (Force opt \<longrightarrow>
            solveStep env spr fullWitness opt emptyFrame = Continues (emptyFrame\<lparr>v_solution := forced\<rparr>) \<and>
            Prove env spr pk fullWitness opt =
              runSteps (tl (proveSteps env spr pk fullWitness opt))
                (Continues (emptyFrame\<lparr>v_solution := forced\<rparr>)) \<and>
            length forced = length solution \<and>
            take a forced = take a solution \<and>
            (\<forall>k. a + k < length solution \<longrightarrow> forced ! (a + k) = 2 ^ k * r) \<and>
            (distinct (drop a forced) \<longleftrightarrow> inj_on (\<lambda>k. 2 ^ k * r) {..< length solution - a}))"
proof (intro conjI impI)
  assume "\<not> Force opt"
  then show "Prove env spr pk fullWitness opt =
              Returned None (Some err) (emptyFrame\<lparr>v_solution := solution\<rparr>)"
    using fail by (simp add: Prove_def solveStep_def thenStep_def)
next
  assume force: "Force opt"
  have filled: "fillForced [a ..< length solution] r solution = forced"
    by (simp add: fillForced_tail forced_def)
  show step: "solveStep env spr fullWitness opt emptyFrame = Continues (emptyFrame\<lparr>v_solution := forced\<rparr>)"
    using fail force filled by (simp add: solveStep_def a_def r_def)
  show "Prove env spr pk fullWitness opt =
              runSteps (tl (proveSteps env spr pk fullWitness opt))
                (Continues (emptyFrame\<lparr>v_solution := forced\<rparr>))"
    using step by (rule Prove_after_solve)
  show "length forced = length solution"
    by (simp add: forced_def)
  show "take a forced = take a solution"
    by (simp add: forced_def)
  show "\<forall>k. a + k < length solution \<longrightarrow> forced ! (a + k) = 2 ^ k * r"
    by (auto simp: forced_def nth_append)
  show "distinct (drop a forced) \<longleftrightarrow> inj_on (\<lambda>k. 2 ^ k * r) {..< length solution - a}"
  proof (cases "a \<le> length solution")
    case True
    then have "drop a forced = map (\<lambda>k. 2 ^ k * r) [0 ..< length solution - a]"
      by (simp add: forced_def)
    then show ?thesis
      by (simp add: distinct_map atLeast0LessThan)
  next
    case False
    then show ?thesis by (simp add: forced_def)
  qed
qed

text \<open>The small instance with two unsolved wires and the value 0 drawn, with and without force.\<close>

theorem Prove_solve_failure_witness:
  "Solve exampleEnvUnsolved exampleSpr [5, 7] \<lparr>Force = True\<rparr> = ([5, 7, 1, 2], Some (Failure ''unsolved'')) \<and>
   Solve exampleEnvUnsolved exampleSpr [5, 7] \<lparr>Force = False\<rparr> = ([5, 7, 1, 2], Some (Failure ''unsolved'')) \<and>
   Prove exampleEnvUnsolved exampleSpr examplePk [5, 7] \<lparr>Force = False\<rparr> =
     Returned None (Some (Failure ''unsolved'')) (emptyFrame\<lparr>v_solution := [5, 7, 1, 2]\<rparr>) \<and>
   Prove exampleEnvUnsolved exampleSpr examplePk [5, 7] \<lparr>Force = True\<rparr> =
     runSteps (tl (proveSteps exampleEnvUnsolved exampleSpr examplePk [5, 7] \<lparr>Force = True\<rparr>))
       (Continues (emptyFrame\<lparr>v_solution := [5, 7, 0, 0]\<rparr>))"
proof -
  have f1: "Solve exampleEnvUnsolved exampleSpr [5, 7] \<lparr>Force = True\<rparr> = ([5, 7, 1, 2], Some (Failure ''unsolved''))"
    by (simp add: exampleEnvUnsolved_def exampleEnv_def)
  have f2: "Solve exampleEnvUnsolved exampleSpr [5, 7] \<lparr>Force = False\<rparr> = ([5, 7, 1, 2], Some (Failure ''unsolved''))"
    by (simp add: exampleEnvUnsolved_def exampleEnv_def)
  have r: "SetRandom exampleEnvUnsolved = 0"
    by (simp add: exampleEnvUnsolved_def exampleEnv_def)
  have a: "length (Public exampleSpr) + length (Secret exampleSpr) = 2"
    by (simp add: exampleSpr_def)
  from Prove_solve_failure [OF f2, of examplePk]
  have p1: "Prove exampleEnvUnsolved exampleSpr examplePk [5, 7] \<lparr>Force = False\<rparr> =
     Returned None (Some (Failure ''unsolved'')) (emptyFrame\<lparr>v_solution := [5, 7, 1, 2]\<rparr>)"
    by simp
  from Prove_solve_failure [OF f1, of examplePk, unfolded r a]
  have p2: "Prove exampleEnvUnsolved exampleSpr examplePk [5, 7] \<lparr>Force = True\<rparr> =
     runSteps (tl (proveSteps exampleEnvUnsolved exampleSpr examplePk [5, 7] \<lparr>Force = True\<rparr>))
       (Continues (emptyFrame\<lparr>v_solution := [5, 7, 0, 0]\<rparr>))"
    by (simp add: upt_conv_Cons)
  from f1 f2 p1 p2 show ?thesis by blast
qed

section \<open>The join of the concurrent commitments\<close>

text \<open>
  Claim C8. When the commitment computed on the calling path fails, \<open>commitToLRO\<close> and
  \<open>commitToQuotient\<close> return that error at once: the calling path has forked the two other
  commitments and has received from neither channel, so it returns without waiting for
  them and without looking at their errors.
\<close>

theorem commitToLRO_returns_without_join:
  "commitToLRO exampleEnvNoCommit [5, 5, 5, 5] [5, 7, 5, 5] [5, 12, 5, 5] emptyProof =
     (Some (Failure ''srs''), emptyProof, [Forked 0, Forked 1, CommittedOnCallingPath]) \<and>
   \<not> joinedBoth [Forked 0, Forked 1, CommittedOnCallingPath] \<and>
   commitToQuotient exampleEnvNoCommit [1, 2] [3, 4] [5, 6] emptyProof =
     (Some (Failure ''srs''), emptyProof, [Forked 0, Forked 1, CommittedOnCallingPath])"
  by (simp add: commitToLRO_def commitToQuotient_def exampleEnvNoCommit_def exampleEnv_def
      emptyProof_def joinedBoth_def)

end
